theory Spec2Isabelle
  imports Main "HOL-Library.Word" "HOL-Library.Sublist"
begin

section \<open>Data model\<close>

text \<open>
  The envelope of \<^verbatim>\<open>api/versionedblockrequest.go\<close> carries a version tag and one
  pointer per supported fork. A Go pointer is an \<open>option\<close> (\<open>None\<close> is \<open>nil\<close>), a
  Go slice is an \<open>option\<close> of a list (\<open>None\<close> is the nil slice, of length 0), and
  a Go result pair \<open>(value, error)\<close> is a pair whose second component is
  \<open>None\<close> for the nil error.
\<close>

type_synonym Slot = "64 word"

text \<open>\<open>phase0.Root\<close> and \<open>phase0.Hash32\<close> are arrays of 32 bytes, read here as one
  word of 256 bits; the zero value of the array is the word 0.\<close>

type_synonym Root = "256 word"
type_synonym Hash32 = "256 word"

type_synonym 'a slice = "'a list option"

definition len :: "'a slice \<Rightarrow> nat" where
  "len s = (case s of None \<Rightarrow> 0 | Some xs \<Rightarrow> length xs)"

definition elems :: "'a slice \<Rightarrow> 'a list" where
  "elems s = (case s of None \<Rightarrow> [] | Some xs \<Rightarrow> xs)"

text \<open>Modelled from the spec: the type \<open>spec.DataVersion\<close> is declared outside the
  files at hand. The spec describes an enumerated tag with four known revisions and
  "anything else"; the \<open>switch\<close> statements of the source name the four constants
  below (Go rejects a switch with two equal constant cases, so they are distinct)
  and send every other value of the underlying integer to \<open>default\<close>.\<close>

datatype DataVersion =
    DataVersionBellatrix
  | DataVersionCapella
  | DataVersionDeneb
  | DataVersionElectra
  | DataVersionOther nat

datatype error =
    ErrDataMissing
  | ErrUnsupportedVersion
  | ExternalError string
  | Wrap error string

text \<open>The payload records of the four forks live in their own packages; each has the
  fields below on the paths the accessors walk. The record schemes are shared and
  instantiated per fork: \<open>'ps\<close> is \<open>phase0.ProposerSlashing\<close>, \<open>'asl\<close> the attester
  slashing type, \<open>'att\<close> the attestation type and \<open>'sa\<close> is \<open>altair.SyncAggregate\<close>.\<close>

record ExecutionPayload =
  BlockHash :: Hash32

record ('ps, 'asl, 'att, 'sa) BeaconBlockBody =
  Body_ProposerSlashings :: "'ps option slice"
  Body_AttesterSlashings :: "'asl option slice"
  Body_Attestations :: "'att option slice"
  Body_SyncAggregate :: "'sa option"
  Body_ExecutionPayload :: "ExecutionPayload option"

record ('ps, 'asl, 'att, 'sa) BeaconBlock =
  Block_Slot :: Slot
  Block_ParentRoot :: Root
  Block_StateRoot :: Root
  Block_Body :: "('ps, 'asl, 'att, 'sa) BeaconBlockBody option"

record ('ps, 'asl, 'att, 'sa) SignedBeaconBlock =
  Message :: "('ps, 'asl, 'att, 'sa) BeaconBlock option"

text \<open>Bellatrix, Capella and Deneb bodies hold \<open>phase0\<close> attestations and attester
  slashings (\<open>'att\<close>, \<open>'asl\<close>); Electra bodies hold the \<open>electra\<close> ones
  (\<open>'eatt\<close>, \<open>'easl\<close>).\<close>

record ('ps, 'asl, 'att, 'sa, 'easl, 'eatt) VersionedBlockRequest =
  Version :: DataVersion
  Bellatrix :: "('ps, 'asl, 'att, 'sa) SignedBeaconBlock option"
  Capella :: "('ps, 'asl, 'att, 'sa) SignedBeaconBlock option"
  Deneb :: "('ps, 'asl, 'att, 'sa) SignedBeaconBlock option"
  Electra :: "('ps, 'easl, 'eatt, 'sa) SignedBeaconBlock option"

text \<open>Modelled from the spec: \<open>spec.VersionedAttestation\<close> and
  \<open>spec.VersionedAttesterSlashing\<close> are declared outside the files at hand. The spec
  describes "a tag plus one populated reference to the version-specific sub-item
  type"; the fields are the ones the source assigns.\<close>

record ('att, 'eatt) VersionedAttestation =
  VA_Version :: DataVersion
  VA_Bellatrix :: "'att option"
  VA_Capella :: "'att option"
  VA_Deneb :: "'att option"
  VA_Electra :: "'eatt option"

record ('asl, 'easl) VersionedAttesterSlashing =
  VAS_Version :: DataVersion
  VAS_Bellatrix :: "'asl option"
  VAS_Capella :: "'asl option"
  VAS_Deneb :: "'asl option"
  VAS_Electra :: "'easl option"

section \<open>Scalar accessors\<close>

definition Slot ::
  "('ps, 'asl, 'att, 'sa, 'easl, 'eatt) VersionedBlockRequest \<Rightarrow>
   Slot \<times> error option" where
  "Slot v =
    (case Version v of
       DataVersionBellatrix \<Rightarrow>
         (case Bellatrix v of None \<Rightarrow> (0, Some ErrDataMissing)
          | Some p \<Rightarrow>
            (case Message p of None \<Rightarrow> (0, Some ErrDataMissing)
             | Some m \<Rightarrow> (Block_Slot m, None)))
     | DataVersionCapella \<Rightarrow>
         (case Capella v of None \<Rightarrow> (0, Some ErrDataMissing)
          | Some p \<Rightarrow>
            (case Message p of None \<Rightarrow> (0, Some ErrDataMissing)
             | Some m \<Rightarrow> (Block_Slot m, None)))
     | DataVersionDeneb \<Rightarrow>
         (case Deneb v of None \<Rightarrow> (0, Some ErrDataMissing)
          | Some p \<Rightarrow>
            (case Message p of None \<Rightarrow> (0, Some ErrDataMissing)
             | Some m \<Rightarrow> (Block_Slot m, None)))
     | DataVersionElectra \<Rightarrow>
         (case Electra v of None \<Rightarrow> (0, Some ErrDataMissing)
          | Some p \<Rightarrow>
            (case Message p of None \<Rightarrow> (0, Some ErrDataMissing)
             | Some m \<Rightarrow> (Block_Slot m, None)))
     | DataVersionOther _ \<Rightarrow> (0, Some ErrUnsupportedVersion))"

definition ParentRoot ::
  "('ps, 'asl, 'att, 'sa, 'easl, 'eatt) VersionedBlockRequest \<Rightarrow>
   Root \<times> error option" where
  "ParentRoot v =
    (case Version v of
       DataVersionBellatrix \<Rightarrow>
         (case Bellatrix v of None \<Rightarrow> (0, Some ErrDataMissing)
          | Some p \<Rightarrow>
            (case Message p of None \<Rightarrow> (0, Some ErrDataMissing)
             | Some m \<Rightarrow> (Block_ParentRoot m, None)))
     | DataVersionCapella \<Rightarrow>
         (case Capella v of None \<Rightarrow> (0, Some ErrDataMissing)
          | Some p \<Rightarrow>
            (case Message p of None \<Rightarrow> (0, Some ErrDataMissing)
             | Some m \<Rightarrow> (Block_ParentRoot m, None)))
     | DataVersionDeneb \<Rightarrow>
         (case Deneb v of None \<Rightarrow> (0, Some ErrDataMissing)
          | Some p \<Rightarrow>
            (case Message p of None \<Rightarrow> (0, Some ErrDataMissing)
             | Some m \<Rightarrow> (Block_ParentRoot m, None)))
     | DataVersionElectra \<Rightarrow>
         (case Electra v of None \<Rightarrow> (0, Some ErrDataMissing)
          | Some p \<Rightarrow>
            (case Message p of None \<Rightarrow> (0, Some ErrDataMissing)
             | Some m \<Rightarrow> (Block_ParentRoot m, None)))
     | DataVersionOther _ \<Rightarrow> (0, Some ErrUnsupportedVersion))"

definition StateRoot ::
  "('ps, 'asl, 'att, 'sa, 'easl, 'eatt) VersionedBlockRequest \<Rightarrow>
   Root \<times> error option" where
  "StateRoot v =
    (case Version v of
       DataVersionBellatrix \<Rightarrow>
         (case Bellatrix v of None \<Rightarrow> (0, Some ErrDataMissing)
          | Some p \<Rightarrow>
            (case Message p of None \<Rightarrow> (0, Some ErrDataMissing)
             | Some m \<Rightarrow> (Block_StateRoot m, None)))
     | DataVersionCapella \<Rightarrow>
         (case Capella v of None \<Rightarrow> (0, Some ErrDataMissing)
          | Some p \<Rightarrow>
            (case Message p of None \<Rightarrow> (0, Some ErrDataMissing)
             | Some m \<Rightarrow> (Block_StateRoot m, None)))
     | DataVersionDeneb \<Rightarrow>
         (case Deneb v of None \<Rightarrow> (0, Some ErrDataMissing)
          | Some p \<Rightarrow>
            (case Message p of None \<Rightarrow> (0, Some ErrDataMissing)
             | Some m \<Rightarrow> (Block_StateRoot m, None)))
     | DataVersionElectra \<Rightarrow>
         (case Electra v of None \<Rightarrow> (0, Some ErrDataMissing)
          | Some p \<Rightarrow>
            (case Message p of None \<Rightarrow> (0, Some ErrDataMissing)
             | Some m \<Rightarrow> (Block_StateRoot m, None)))
     | DataVersionOther _ \<Rightarrow> (0, Some ErrUnsupportedVersion))"

definition ExecutionBlockHash ::
  "('ps, 'asl, 'att, 'sa, 'easl, 'eatt) VersionedBlockRequest \<Rightarrow>
   Hash32 \<times> error option" where
  "ExecutionBlockHash v =
    (case Version v of
       DataVersionBellatrix \<Rightarrow>
         (case Bellatrix v of None \<Rightarrow> (0, Some ErrDataMissing)
          | Some p \<Rightarrow>
            (case Message p of None \<Rightarrow> (0, Some ErrDataMissing)
             | Some m \<Rightarrow>
               (case Block_Body m of None \<Rightarrow> (0, Some ErrDataMissing)
                | Some b \<Rightarrow>
                  (case Body_ExecutionPayload b of None \<Rightarrow> (0, Some ErrDataMissing)
                   | Some e \<Rightarrow> (BlockHash e, None)))))
     | DataVersionCapella \<Rightarrow>
         (case Capella v of None \<Rightarrow> (0, Some ErrDataMissing)
          | Some p \<Rightarrow>
            (case Message p of None \<Rightarrow> (0, Some ErrDataMissing)
             | Some m \<Rightarrow>
               (case Block_Body m of None \<Rightarrow> (0, Some ErrDataMissing)
                | Some b \<Rightarrow>
                  (case Body_ExecutionPayload b of None \<Rightarrow> (0, Some ErrDataMissing)
                   | Some e \<Rightarrow> (BlockHash e, None)))))
     | DataVersionDeneb \<Rightarrow>
         (case Deneb v of None \<Rightarrow> (0, Some ErrDataMissing)
          | Some p \<Rightarrow>
            (case Message p of None \<Rightarrow> (0, Some ErrDataMissing)
             | Some m \<Rightarrow>
               (case Block_Body m of None \<Rightarrow> (0, Some ErrDataMissing)
                | Some b \<Rightarrow>
                  (case Body_ExecutionPayload b of None \<Rightarrow> (0, Some ErrDataMissing)
                   | Some e \<Rightarrow> (BlockHash e, None)))))
     | DataVersionElectra \<Rightarrow>
         (case Electra v of None \<Rightarrow> (0, Some ErrDataMissing)
          | Some p \<Rightarrow>
            (case Message p of None \<Rightarrow> (0, Some ErrDataMissing)
             | Some m \<Rightarrow>
               (case Block_Body m of None \<Rightarrow> (0, Some ErrDataMissing)
                | Some b \<Rightarrow>
                  (case Body_ExecutionPayload b of None \<Rightarrow> (0, Some ErrDataMissing)
                   | Some e \<Rightarrow> (BlockHash e, None)))))
     | DataVersionOther _ \<Rightarrow> (0, Some ErrUnsupportedVersion))"

text \<open>\<open>Root\<close> and \<open>BodyRoot\<close> call the \<open>HashTreeRoot\<close> method of the fork's message
  or body, which belongs to the payload packages; the four methods are parameters, one
  per fork, and their result pair is returned as it is.\<close>

definition Root ::
  "(('ps, 'asl, 'att, 'sa) BeaconBlock \<Rightarrow> Root \<times> error option) \<Rightarrow>
   (('ps, 'asl, 'att, 'sa) BeaconBlock \<Rightarrow> Root \<times> error option) \<Rightarrow>
   (('ps, 'asl, 'att, 'sa) BeaconBlock \<Rightarrow> Root \<times> error option) \<Rightarrow>
   (('ps, 'easl, 'eatt, 'sa) BeaconBlock \<Rightarrow> Root \<times> error option) \<Rightarrow>
   ('ps, 'asl, 'att, 'sa, 'easl, 'eatt) VersionedBlockRequest \<Rightarrow> Root \<times> error option" where
  "Root hB hC hD hE v =
    (case Version v of
       DataVersionBellatrix \<Rightarrow>
         (case Bellatrix v of None \<Rightarrow> (0, Some ErrDataMissing)
          | Some p \<Rightarrow>
            (case Message p of None \<Rightarrow> (0, Some ErrDataMissing)
             | Some m \<Rightarrow> hB m))
     | DataVersionCapella \<Rightarrow>
         (case Capella v of None \<Rightarrow> (0, Some ErrDataMissing)
          | Some p \<Rightarrow>
            (case Message p of None \<Rightarrow> (0, Some ErrDataMissing)
             | Some m \<Rightarrow> hC m))
     | DataVersionDeneb \<Rightarrow>
         (case Deneb v of None \<Rightarrow> (0, Some ErrDataMissing)
          | Some p \<Rightarrow>
            (case Message p of None \<Rightarrow> (0, Some ErrDataMissing)
             | Some m \<Rightarrow> hD m))
     | DataVersionElectra \<Rightarrow>
         (case Electra v of None \<Rightarrow> (0, Some ErrDataMissing)
          | Some p \<Rightarrow>
            (case Message p of None \<Rightarrow> (0, Some ErrDataMissing)
             | Some m \<Rightarrow> hE m))
     | DataVersionOther _ \<Rightarrow> (0, Some ErrUnsupportedVersion))"

definition BodyRoot ::
  "(('ps, 'asl, 'att, 'sa) BeaconBlockBody \<Rightarrow> Root \<times> error option) \<Rightarrow>
   (('ps, 'asl, 'att, 'sa) BeaconBlockBody \<Rightarrow> Root \<times> error option) \<Rightarrow>
   (('ps, 'asl, 'att, 'sa) BeaconBlockBody \<Rightarrow> Root \<times> error option) \<Rightarrow>
   (('ps, 'easl, 'eatt, 'sa) BeaconBlockBody \<Rightarrow> Root \<times> error option) \<Rightarrow>
   ('ps, 'asl, 'att, 'sa, 'easl, 'eatt) VersionedBlockRequest \<Rightarrow> Root \<times> error option" where
  "BodyRoot hB hC hD hE v =
    (case Version v of
       DataVersionBellatrix \<Rightarrow>
         (case Bellatrix v of None \<Rightarrow> (0, Some ErrDataMissing)
          | Some p \<Rightarrow>
            (case Message p of None \<Rightarrow> (0, Some ErrDataMissing)
             | Some m \<Rightarrow>
               (case Block_Body m of None \<Rightarrow> (0, Some ErrDataMissing)
                | Some b \<Rightarrow>
                    hB b)))
     | DataVersionCapella \<Rightarrow>
         (case Capella v of None \<Rightarrow> (0, Some ErrDataMissing)
          | Some p \<Rightarrow>
            (case Message p of None \<Rightarrow> (0, Some ErrDataMissing)
             | Some m \<Rightarrow>
               (case Block_Body m of None \<Rightarrow> (0, Some ErrDataMissing)
                | Some b \<Rightarrow>
                    hC b)))
     | DataVersionDeneb \<Rightarrow>
         (case Deneb v of None \<Rightarrow> (0, Some ErrDataMissing)
          | Some p \<Rightarrow>
            (case Message p of None \<Rightarrow> (0, Some ErrDataMissing)
             | Some m \<Rightarrow>
               (case Block_Body m of None \<Rightarrow> (0, Some ErrDataMissing)
                | Some b \<Rightarrow>
                    hD b)))
     | DataVersionElectra \<Rightarrow>
         (case Electra v of None \<Rightarrow> (0, Some ErrDataMissing)
          | Some p \<Rightarrow>
            (case Message p of None \<Rightarrow> (0, Some ErrDataMissing)
             | Some m \<Rightarrow>
               (case Block_Body m of None \<Rightarrow> (0, Some ErrDataMissing)
                | Some b \<Rightarrow>
                    hE b)))
     | DataVersionOther _ \<Rightarrow> (0, Some ErrUnsupportedVersion))"

section \<open>Collection accessors\<close>

text \<open>\<open>make([]T, n)\<close> allocates \<open>n\<close> zero values; the \<open>for i, x := range xs\<close> loop
  that follows stores \<open>f x\<close> at index \<open>i\<close>, front to back.\<close>

definition make_slice :: "nat \<Rightarrow> 'a \<Rightarrow> 'a list" where
  "make_slice n z = replicate n z"

fun range_fill :: "('a \<Rightarrow> 'b) \<Rightarrow> 'a list \<Rightarrow> nat \<Rightarrow> 'b list \<Rightarrow> 'b list" where
  "range_fill f [] i out = out"
| "range_fill f (x # xs) i out = range_fill f xs (Suc i) (out[i := f x])"

text \<open>The zero values of the wrappers: every pointer nil, and the tag the zero of its
  integer type, which is none of the four constants of the envelope.\<close>

definition zero_VersionedAttestation :: "('att, 'eatt) VersionedAttestation" where
  "zero_VersionedAttestation =
    \<lparr>VA_Version = DataVersionOther 0, VA_Bellatrix = None, VA_Capella = None,
     VA_Deneb = None, VA_Electra = None\<rparr>"

definition zero_VersionedAttesterSlashing :: "('asl, 'easl) VersionedAttesterSlashing" where
  "zero_VersionedAttesterSlashing =
    \<lparr>VAS_Version = DataVersionOther 0, VAS_Bellatrix = None, VAS_Capella = None,
     VAS_Deneb = None, VAS_Electra = None\<rparr>"

definition Attestations ::
  "('ps, 'asl, 'att, 'sa, 'easl, 'eatt) VersionedBlockRequest \<Rightarrow>
   ('att, 'eatt) VersionedAttestation slice \<times> error option" where
  "Attestations v =
    (case Version v of
       DataVersionBellatrix \<Rightarrow>
         (case Bellatrix v of None \<Rightarrow> (None, Some ErrDataMissing)
          | Some p \<Rightarrow>
            (case Message p of None \<Rightarrow> (None, Some ErrDataMissing)
             | Some m \<Rightarrow>
               (case Block_Body m of None \<Rightarrow> (None, Some ErrDataMissing)
                | Some b \<Rightarrow>
                    (Some (range_fill
                       (\<lambda>x. \<lparr>VA_Version = DataVersionBellatrix, VA_Bellatrix = x, VA_Capella = None,
                             VA_Deneb = None, VA_Electra = None\<rparr>)
                       (elems (Body_Attestations b)) 0
                       (make_slice (len (Body_Attestations b)) zero_VersionedAttestation)), None))))
     | DataVersionCapella \<Rightarrow>
         (case Capella v of None \<Rightarrow> (None, Some ErrDataMissing)
          | Some p \<Rightarrow>
            (case Message p of None \<Rightarrow> (None, Some ErrDataMissing)
             | Some m \<Rightarrow>
               (case Block_Body m of None \<Rightarrow> (None, Some ErrDataMissing)
                | Some b \<Rightarrow>
                    (Some (range_fill
                       (\<lambda>x. \<lparr>VA_Version = DataVersionCapella, VA_Bellatrix = None, VA_Capella = x,
                             VA_Deneb = None, VA_Electra = None\<rparr>)
                       (elems (Body_Attestations b)) 0
                       (make_slice (len (Body_Attestations b)) zero_VersionedAttestation)), None))))
     | DataVersionDeneb \<Rightarrow>
         (case Deneb v of None \<Rightarrow> (None, Some ErrDataMissing)
          | Some p \<Rightarrow>
            (case Message p of None \<Rightarrow> (None, Some ErrDataMissing)
             | Some m \<Rightarrow>
               (case Block_Body m of None \<Rightarrow> (None, Some ErrDataMissing)
                | Some b \<Rightarrow>
                    (Some (range_fill
                       (\<lambda>x. \<lparr>VA_Version = DataVersionDeneb, VA_Bellatrix = None, VA_Capella = None,
                             VA_Deneb = x, VA_Electra = None\<rparr>)
                       (elems (Body_Attestations b)) 0
                       (make_slice (len (Body_Attestations b)) zero_VersionedAttestation)), None))))
     | DataVersionElectra \<Rightarrow>
         (case Electra v of None \<Rightarrow> (None, Some ErrDataMissing)
          | Some p \<Rightarrow>
            (case Message p of None \<Rightarrow> (None, Some ErrDataMissing)
             | Some m \<Rightarrow>
               (case Block_Body m of None \<Rightarrow> (None, Some ErrDataMissing)
                | Some b \<Rightarrow>
                    (Some (range_fill
                       (\<lambda>x. \<lparr>VA_Version = DataVersionElectra, VA_Bellatrix = None, VA_Capella = None,
                             VA_Deneb = None, VA_Electra = x\<rparr>)
                       (elems (Body_Attestations b)) 0
                       (make_slice (len (Body_Attestations b)) zero_VersionedAttestation)), None))))
     | DataVersionOther _ \<Rightarrow> (None, Some ErrUnsupportedVersion))"

definition AttesterSlashings ::
  "('ps, 'asl, 'att, 'sa, 'easl, 'eatt) VersionedBlockRequest \<Rightarrow>
   ('asl, 'easl) VersionedAttesterSlashing slice \<times> error option" where
  "AttesterSlashings v =
    (case Version v of
       DataVersionBellatrix \<Rightarrow>
         (case Bellatrix v of None \<Rightarrow> (None, Some ErrDataMissing)
          | Some p \<Rightarrow>
            (case Message p of None \<Rightarrow> (None, Some ErrDataMissing)
             | Some m \<Rightarrow>
               (case Block_Body m of None \<Rightarrow> (None, Some ErrDataMissing)
                | Some b \<Rightarrow>
                    (Some (range_fill
                       (\<lambda>x. \<lparr>VAS_Version = DataVersionBellatrix, VAS_Bellatrix = x, VAS_Capella = None,
                             VAS_Deneb = None, VAS_Electra = None\<rparr>)
                       (elems (Body_AttesterSlashings b)) 0
                       (make_slice (len (Body_AttesterSlashings b)) zero_VersionedAttesterSlashing)), None))))
     | DataVersionCapella \<Rightarrow>
         (case Capella v of None \<Rightarrow> (None, Some ErrDataMissing)
          | Some p \<Rightarrow>
            (case Message p of None \<Rightarrow> (None, Some ErrDataMissing)
             | Some m \<Rightarrow>
               (case Block_Body m of None \<Rightarrow> (None, Some ErrDataMissing)
                | Some b \<Rightarrow>
                    (Some (range_fill
                       (\<lambda>x. \<lparr>VAS_Version = DataVersionCapella, VAS_Bellatrix = None, VAS_Capella = x,
                             VAS_Deneb = None, VAS_Electra = None\<rparr>)
                       (elems (Body_AttesterSlashings b)) 0
                       (make_slice (len (Body_AttesterSlashings b)) zero_VersionedAttesterSlashing)), None))))
     | DataVersionDeneb \<Rightarrow>
         (case Deneb v of None \<Rightarrow> (None, Some ErrDataMissing)
          | Some p \<Rightarrow>
            (case Message p of None \<Rightarrow> (None, Some ErrDataMissing)
             | Some m \<Rightarrow>
               (case Block_Body m of None \<Rightarrow> (None, Some ErrDataMissing)
                | Some b \<Rightarrow>
                    (Some (range_fill
                       (\<lambda>x. \<lparr>VAS_Version = DataVersionDeneb, VAS_Bellatrix = None, VAS_Capella = None,
                             VAS_Deneb = x, VAS_Electra = None\<rparr>)
                       (elems (Body_AttesterSlashings b)) 0
                       (make_slice (len (Body_AttesterSlashings b)) zero_VersionedAttesterSlashing)), None))))
     | DataVersionElectra \<Rightarrow>
         (case Electra v of None \<Rightarrow> (None, Some ErrDataMissing)
          | Some p \<Rightarrow>
            (case Message p of None \<Rightarrow> (None, Some ErrDataMissing)
             | Some m \<Rightarrow>
               (case Block_Body m of None \<Rightarrow> (None, Some ErrDataMissing)
                | Some b \<Rightarrow>
                    (Some (range_fill
                       (\<lambda>x. \<lparr>VAS_Version = DataVersionElectra, VAS_Bellatrix = None, VAS_Capella = None,
                             VAS_Deneb = None, VAS_Electra = x\<rparr>)
                       (elems (Body_AttesterSlashings b)) 0
                       (make_slice (len (Body_AttesterSlashings b)) zero_VersionedAttesterSlashing)), None))))
     | DataVersionOther _ \<Rightarrow> (None, Some ErrUnsupportedVersion))"

definition ProposerSlashings ::
  "('ps, 'asl, 'att, 'sa, 'easl, 'eatt) VersionedBlockRequest \<Rightarrow>
   'ps option slice \<times> error option" where
  "ProposerSlashings v =
    (case Version v of
       DataVersionBellatrix \<Rightarrow>
         (case Bellatrix v of None \<Rightarrow> (None, Some ErrDataMissing)
          | Some p \<Rightarrow>
            (case Message p of None \<Rightarrow> (None, Some ErrDataMissing)
             | Some m \<Rightarrow>
               (case Block_Body m of None \<Rightarrow> (None, Some ErrDataMissing)
                | Some b \<Rightarrow>
                    (Body_ProposerSlashings b, None))))
     | DataVersionCapella \<Rightarrow>
         (case Capella v of None \<Rightarrow> (None, Some ErrDataMissing)
          | Some p \<Rightarrow>
            (case Message p of None \<Rightarrow> (None, Some ErrDataMissing)
             | Some m \<Rightarrow>
               (case Block_Body m of None \<Rightarrow> (None, Some ErrDataMissing)
                | Some b \<Rightarrow>
                    (Body_ProposerSlashings b, None))))
     | DataVersionDeneb \<Rightarrow>
         (case Deneb v of None \<Rightarrow> (None, Some ErrDataMissing)
          | Some p \<Rightarrow>
            (case Message p of None \<Rightarrow> (None, Some ErrDataMissing)
             | Some m \<Rightarrow>
               (case Block_Body m of None \<Rightarrow> (None, Some ErrDataMissing)
                | Some b \<Rightarrow>
                    (Body_ProposerSlashings b, None))))
     | DataVersionElectra \<Rightarrow>
         (case Electra v of None \<Rightarrow> (None, Some ErrDataMissing)
          | Some p \<Rightarrow>
            (case Message p of None \<Rightarrow> (None, Some ErrDataMissing)
             | Some m \<Rightarrow>
               (case Block_Body m of None \<Rightarrow> (None, Some ErrDataMissing)
                | Some b \<Rightarrow>
                    (Body_ProposerSlashings b, None))))
     | DataVersionOther _ \<Rightarrow> (None, Some ErrUnsupportedVersion))"

definition SyncAggregate ::
  "('ps, 'asl, 'att, 'sa, 'easl, 'eatt) VersionedBlockRequest \<Rightarrow>
   'sa option \<times> error option" where
  "SyncAggregate v =
    (case Version v of
       DataVersionBellatrix \<Rightarrow>
         (case Bellatrix v of None \<Rightarrow> (None, Some ErrDataMissing)
          | Some p \<Rightarrow>
            (case Message p of None \<Rightarrow> (None, Some ErrDataMissing)
             | Some m \<Rightarrow>
               (case Block_Body m of None \<Rightarrow> (None, Some ErrDataMissing)
                | Some b \<Rightarrow>
                    (Body_SyncAggregate b, None))))
     | DataVersionCapella \<Rightarrow>
         (case Capella v of None \<Rightarrow> (None, Some ErrDataMissing)
          | Some p \<Rightarrow>
            (case Message p of None \<Rightarrow> (None, Some ErrDataMissing)
             | Some m \<Rightarrow>
               (case Block_Body m of None \<Rightarrow> (None, Some ErrDataMissing)
                | Some b \<Rightarrow>
                    (Body_SyncAggregate b, None))))
     | DataVersionDeneb \<Rightarrow>
         (case Deneb v of None \<Rightarrow> (None, Some ErrDataMissing)
          | Some p \<Rightarrow>
            (case Message p of None \<Rightarrow> (None, Some ErrDataMissing)
             | Some m \<Rightarrow>
               (case Block_Body m of None \<Rightarrow> (None, Some ErrDataMissing)
                | Some b \<Rightarrow>
                    (Body_SyncAggregate b, None))))
     | DataVersionElectra \<Rightarrow>
         (case Electra v of None \<Rightarrow> (None, Some ErrDataMissing)
          | Some p \<Rightarrow>
            (case Message p of None \<Rightarrow> (None, Some ErrDataMissing)
             | Some m \<Rightarrow>
               (case Block_Body m of None \<Rightarrow> (None, Some ErrDataMissing)
                | Some b \<Rightarrow>
                    (Body_SyncAggregate b, None))))
     | DataVersionOther _ \<Rightarrow> (None, Some ErrUnsupportedVersion))"

section \<open>String form\<close>


section \<open>The YAML codec of the Electra block contents\<close>

text \<open>\<^verbatim>\<open>api/v1/electra/blockcontents_yaml.go\<close>. Byte slices are strings (lists of
  8-bit characters; the nil and the empty byte slice are not told apart). \<open>deneb.KZGProof\<close>
  and \<open>deneb.Blob\<close> are byte arrays; \<open>'blk\<close> is \<open>electra.BeaconBlock\<close>.\<close>

type_synonym KZGProof = "8 word list"
type_synonym Blob = "8 word list"

record 'blk BlockContents =
  Block :: "'blk option"
  KZGProofs :: "KZGProof slice"
  Blobs :: "Blob slice"

record 'blk blockContentsYAML =
  yaml_Block :: "'blk option"
  yaml_KZGProofs :: "KZGProof slice"
  yaml_Blobs :: "Blob slice"

text \<open>What the reflective serializer sees of a \<open>blockContentsYAML\<close>: its fields in
  declaration order, each under the name of its \<open>yaml\<close> struct tag.\<close>

datatype 'blk yaml_field =
    YBlock "'blk option"
  | YKZGProofs "KZGProof slice"
  | YBlobs "Blob slice"

definition blockContentsYAML_fields ::
  "'blk blockContentsYAML \<Rightarrow> (string \<times> 'blk yaml_field) list" where
  "blockContentsYAML_fields y =
    [(''block'', YBlock (yaml_Block y)),
     (''kzg_proofs'', YKZGProofs (yaml_KZGProofs y)),
     (''blobs'', YBlobs (yaml_Blobs y))]"

text \<open>An option of the serializer; the source passes \<open>yaml.Flow(true)\<close>.\<close>

datatype EncodeOption = Flow bool

text \<open>\<open>bytes.ReplaceAll\<close> of the standard library, for a non-empty pattern: the
  non-overlapping occurrences of \<open>old\<close> are replaced from left to right. (For an empty
  pattern Go inserts \<open>new\<close> at every rune boundary; the source never passes one, and
  the model returns the input unchanged there.)\<close>

function ReplaceAll :: "string \<Rightarrow> string \<Rightarrow> string \<Rightarrow> string" where
  "ReplaceAll [] old new = []"
| "ReplaceAll (c # cs) old new =
    (if old \<noteq> [] \<and> prefix old (c # cs)
     then new @ ReplaceAll (drop (length old) (c # cs)) old new
     else c # ReplaceAll cs old new)"
  by pat_completeness auto
termination
  by (relation "measure (\<lambda>(s, old, new). length s)") auto

text \<open>\<open>MarshalYAML\<close>; \<open>ym\<close> is \<open>yaml.MarshalWithOptions\<close> of the YAML library, which
  returns the bytes and an error. The double quote is byte \<open>0x22\<close>, the single quote
  byte \<open>0x27\<close>.\<close>

definition MarshalYAML ::
  "((string \<times> 'blk yaml_field) list \<Rightarrow> EncodeOption list \<Rightarrow> string \<times> error option) \<Rightarrow>
   'blk BlockContents \<Rightarrow> string \<times> error option" where
  "MarshalYAML ym b =
    (case ym (blockContentsYAML_fields
               \<lparr>yaml_Block = Block b, yaml_KZGProofs = KZGProofs b, yaml_Blobs = Blobs b\<rparr>)
             [Flow True] of
       (yamlBytes, Some err) \<Rightarrow> ([], Some err)
     | (yamlBytes, None) \<Rightarrow> (ReplaceAll yamlBytes [CHR 0x22] [CHR 0x27], None))"

text \<open>\<open>UnmarshalYAML\<close>. The struct \<open>blockContentsJSON\<close> and the method
  \<open>UnmarshalJSON\<close> belong to the JSON codec of the same package, and \<open>yaml.Unmarshal\<close>
  and \<open>json.Marshal\<close> to libraries; they are parameters: \<open>'j\<close> is
  \<open>blockContentsJSON\<close> and \<open>j0\<close> its zero value, \<open>yu\<close> fills the struct it is
  given from the input, \<open>jm\<close> encodes it, and \<open>uj\<close> updates the receiver \<open>b\<close> from
  the encoded bytes. The receiver is returned with the error.\<close>

definition UnmarshalYAML ::
  "(string \<Rightarrow> 'j \<Rightarrow> 'j \<times> error option) \<Rightarrow> ('j \<Rightarrow> string \<times> error option) \<Rightarrow>
   ('b \<Rightarrow> string \<Rightarrow> 'b \<times> error option) \<Rightarrow> 'j \<Rightarrow> 'b \<Rightarrow> string \<Rightarrow> 'b \<times> error option" where
  "UnmarshalYAML yu jm uj j0 b input =
    (case yu input j0 of
       (unmarshaled, Some err) \<Rightarrow> (b, Some (Wrap err ''failed to unmarshal YAML''))
     | (unmarshaled, None) \<Rightarrow>
         (case jm unmarshaled of
            (marshaled, Some err) \<Rightarrow> (b, Some (Wrap err ''failed to marshal JSON''))
          | (marshaled, None) \<Rightarrow> uj b marshaled))"

section \<open>Example values\<close>

definition ex_body :: "(nat, nat, nat, nat) BeaconBlockBody" where
  "ex_body =
    \<lparr>Body_ProposerSlashings = Some [Some 1, None],
     Body_AttesterSlashings = Some [Some 2, Some 3],
     Body_Attestations = Some [Some 4, None, Some 5],
     Body_SyncAggregate = None,
     Body_ExecutionPayload = Some \<lparr>BlockHash = 0xABC\<rparr>\<rparr>"

definition ex_block :: "(nat, nat, nat, nat) BeaconBlock" where
  "ex_block =
    \<lparr>Block_Slot = 12345, Block_ParentRoot = 7, Block_StateRoot = 9,
     Block_Body = Some ex_body\<rparr>"

definition ex_signed :: "(nat, nat, nat, nat) SignedBeaconBlock" where
  "ex_signed = \<lparr>Message = Some ex_block\<rparr>"

definition ex_bellatrix :: "(nat, nat, nat, nat, nat, nat) VersionedBlockRequest" where
  "ex_bellatrix =
    \<lparr>Version = DataVersionBellatrix, Bellatrix = Some ex_signed, Capella = None,
     Deneb = None, Electra = None\<rparr>"

definition ex_capella :: "(nat, nat, nat, nat, nat, nat) VersionedBlockRequest" where
  "ex_capella =
    \<lparr>Version = DataVersionCapella, Bellatrix = None, Capella = Some ex_signed,
     Deneb = None, Electra = None\<rparr>"

definition ex_deneb :: "(nat, nat, nat, nat, nat, nat) VersionedBlockRequest" where
  "ex_deneb =
    \<lparr>Version = DataVersionDeneb, Bellatrix = None, Capella = None,
     Deneb = Some ex_signed, Electra = None\<rparr>"

definition ex_electra :: "(nat, nat, nat, nat, nat, nat) VersionedBlockRequest" where
  "ex_electra =
    \<lparr>Version = DataVersionElectra, Bellatrix = None, Capella = None,
     Deneb = None, Electra = Some ex_signed\<rparr>"

definition ex_bellatrix_no_body :: "(nat, nat, nat, nat, nat, nat) VersionedBlockRequest" where
  "ex_bellatrix_no_body =
    \<lparr>Version = DataVersionBellatrix,
     Bellatrix = Some \<lparr>Message = Some (ex_block\<lparr>Block_Body := None\<rparr>)\<rparr>,
     Capella = None, Deneb = None, Electra = None\<rparr>"

definition ex_unsupported :: "(nat, nat, nat, nat, nat, nat) VersionedBlockRequest" where
  "ex_unsupported =
    \<lparr>Version = DataVersionOther 1, Bellatrix = Some ex_signed, Capella = None,
     Deneb = None, Electra = None\<rparr>"




definition ex_contents :: "nat BlockContents" where
  "ex_contents = \<lparr>Block = Some 12345, KZGProofs = Some [[1, 2]], Blobs = Some [[3]]\<rparr>"

text \<open>A serializer that emits the name of the first field between double quotes.\<close>

definition ex_marshal ::
  "(string \<times> nat yaml_field) list \<Rightarrow> EncodeOption list \<Rightarrow> string \<times> error option" where
  "ex_marshal fs opts =
    (case fs of [] \<Rightarrow> ([], Some (ExternalError ''no fields''))
     | (k, x) # rest \<Rightarrow> ([CHR 0x22] @ k @ [CHR 0x22], None))"

definition ex_marshal_fail ::
  "(string \<times> nat yaml_field) list \<Rightarrow> EncodeOption list \<Rightarrow> string \<times> error option" where
  "ex_marshal_fail fs opts = (''partial'', Some (ExternalError ''encoder failed''))"

text \<open>Stand-ins for \<open>yaml.Unmarshal\<close>, \<open>json.Marshal\<close> and \<open>UnmarshalJSON\<close>, each with
  a failing input; the intermediate structure is a number.\<close>

definition ex_yaml_unmarshal :: "string \<Rightarrow> nat \<Rightarrow> nat \<times> error option" where
  "ex_yaml_unmarshal input j =
    (if input = [] then (j, Some (ExternalError ''unexpected end of input''))
     else (length input, None))"

definition ex_json_marshal :: "nat \<Rightarrow> string \<times> error option" where
  "ex_json_marshal j =
    (if j = 1 then ([], Some (ExternalError ''unsupported value''))
     else (replicate j (CHR ''x''), None))"

definition ex_UnmarshalJSON :: "nat BlockContents \<Rightarrow> string \<Rightarrow> nat BlockContents \<times> error option" where
  "ex_UnmarshalJSON b input =
    (if length input < 3 then (b, Some (ExternalError ''invalid JSON''))
     else (b\<lparr>Block := Some (length input)\<rparr>, None))"

section \<open>Auxiliary lemmas\<close>

lemma range_fill_take:
  "length out = i + length xs \<Longrightarrow> range_fill f xs i out = take i out @ map f xs"
proof (induction xs arbitrary: i out)
  case Nil
  then show ?case by simp
next
  case (Cons x xs)
  have "range_fill f (x # xs) i out = range_fill f xs (Suc i) (out[i := f x])" by simp
  also have "\<dots> = take (Suc i) (out[i := f x]) @ map f xs"
    using Cons.prems by (intro Cons.IH) simp
  also have "take (Suc i) (out[i := f x]) = take i out @ [f x]"
    using Cons.prems by (simp add: take_Suc_conv_app_nth)
  finally show ?case by simp
qed

lemma range_fill_make_slice:
  "range_fill f (elems s) 0 (make_slice (len s) z) = map f (elems s)"
  by (simp add: range_fill_take make_slice_def len_def elems_def split: option.splits)

lemma ReplaceAll_single:
  "ReplaceAll s [a] [b] = map (\<lambda>c. if c = a then b else c) s"
  by (induction s) auto

lemma length_elems: "length (elems s) = len s"
  by (simp add: len_def elems_def split: option.split)

lemma ExecutionBlockHash_Bellatrix:
  "Version v = DataVersionBellatrix \<longrightarrow>
    (snd (ExecutionBlockHash v) = Some ErrDataMissing \<longleftrightarrow>
       (Bellatrix v = None \<or>
        (\<exists>p. Bellatrix v = Some p \<and> (Message p = None \<or>
          (\<exists>m. Message p = Some m \<and> (Block_Body m = None \<or>
            (\<exists>b. Block_Body m = Some b \<and> Body_ExecutionPayload b = None))))))) \<and>
    (\<forall>p m b e. Bellatrix v = Some p \<and> Message p = Some m \<and> Block_Body m = Some b \<and>
       Body_ExecutionPayload b = Some e \<longrightarrow> ExecutionBlockHash v = (BlockHash e, None))"
proof (rule impI)
  assume tag: "Version v = DataVersionBellatrix"
  show "(snd (ExecutionBlockHash v) = Some ErrDataMissing \<longleftrightarrow>
       (Bellatrix v = None \<or>
        (\<exists>p. Bellatrix v = Some p \<and> (Message p = None \<or>
          (\<exists>m. Message p = Some m \<and> (Block_Body m = None \<or>
            (\<exists>b. Block_Body m = Some b \<and> Body_ExecutionPayload b = None))))))) \<and>
    (\<forall>p m b e. Bellatrix v = Some p \<and> Message p = Some m \<and> Block_Body m = Some b \<and>
       Body_ExecutionPayload b = Some e \<longrightarrow> ExecutionBlockHash v = (BlockHash e, None))"
    by (simp add: tag ExecutionBlockHash_def split: option.split)
qed

lemma ExecutionBlockHash_Capella:
  "Version v = DataVersionCapella \<longrightarrow>
    (snd (ExecutionBlockHash v) = Some ErrDataMissing \<longleftrightarrow>
       (Capella v = None \<or>
        (\<exists>p. Capella v = Some p \<and> (Message p = None \<or>
          (\<exists>m. Message p = Some m \<and> (Block_Body m = None \<or>
            (\<exists>b. Block_Body m = Some b \<and> Body_ExecutionPayload b = None))))))) \<and>
    (\<forall>p m b e. Capella v = Some p \<and> Message p = Some m \<and> Block_Body m = Some b \<and>
       Body_ExecutionPayload b = Some e \<longrightarrow> ExecutionBlockHash v = (BlockHash e, None))"
proof (rule impI)
  assume tag: "Version v = DataVersionCapella"
  show "(snd (ExecutionBlockHash v) = Some ErrDataMissing \<longleftrightarrow>
       (Capella v = None \<or>
        (\<exists>p. Capella v = Some p \<and> (Message p = None \<or>
          (\<exists>m. Message p = Some m \<and> (Block_Body m = None \<or>
            (\<exists>b. Block_Body m = Some b \<and> Body_ExecutionPayload b = None))))))) \<and>
    (\<forall>p m b e. Capella v = Some p \<and> Message p = Some m \<and> Block_Body m = Some b \<and>
       Body_ExecutionPayload b = Some e \<longrightarrow> ExecutionBlockHash v = (BlockHash e, None))"
    by (simp add: tag ExecutionBlockHash_def split: option.split)
qed

lemma ExecutionBlockHash_Deneb:
  "Version v = DataVersionDeneb \<longrightarrow>
    (snd (ExecutionBlockHash v) = Some ErrDataMissing \<longleftrightarrow>
       (Deneb v = None \<or>
        (\<exists>p. Deneb v = Some p \<and> (Message p = None \<or>
          (\<exists>m. Message p = Some m \<and> (Block_Body m = None \<or>
            (\<exists>b. Block_Body m = Some b \<and> Body_ExecutionPayload b = None))))))) \<and>
    (\<forall>p m b e. Deneb v = Some p \<and> Message p = Some m \<and> Block_Body m = Some b \<and>
       Body_ExecutionPayload b = Some e \<longrightarrow> ExecutionBlockHash v = (BlockHash e, None))"
proof (rule impI)
  assume tag: "Version v = DataVersionDeneb"
  show "(snd (ExecutionBlockHash v) = Some ErrDataMissing \<longleftrightarrow>
       (Deneb v = None \<or>
        (\<exists>p. Deneb v = Some p \<and> (Message p = None \<or>
          (\<exists>m. Message p = Some m \<and> (Block_Body m = None \<or>
            (\<exists>b. Block_Body m = Some b \<and> Body_ExecutionPayload b = None))))))) \<and>
    (\<forall>p m b e. Deneb v = Some p \<and> Message p = Some m \<and> Block_Body m = Some b \<and>
       Body_ExecutionPayload b = Some e \<longrightarrow> ExecutionBlockHash v = (BlockHash e, None))"
    by (simp add: tag ExecutionBlockHash_def split: option.split)
qed

lemma ExecutionBlockHash_Electra:
  "Version v = DataVersionElectra \<longrightarrow>
    (snd (ExecutionBlockHash v) = Some ErrDataMissing \<longleftrightarrow>
       (Electra v = None \<or>
        (\<exists>p. Electra v = Some p \<and> (Message p = None \<or>
          (\<exists>m. Message p = Some m \<and> (Block_Body m = None \<or>
            (\<exists>b. Block_Body m = Some b \<and> Body_ExecutionPayload b = None))))))) \<and>
    (\<forall>p m b e. Electra v = Some p \<and> Message p = Some m \<and> Block_Body m = Some b \<and>
       Body_ExecutionPayload b = Some e \<longrightarrow> ExecutionBlockHash v = (BlockHash e, None))"
proof (rule impI)
  assume tag: "Version v = DataVersionElectra"
  show "(snd (ExecutionBlockHash v) = Some ErrDataMissing \<longleftrightarrow>
       (Electra v = None \<or>
        (\<exists>p. Electra v = Some p \<and> (Message p = None \<or>
          (\<exists>m. Message p = Some m \<and> (Block_Body m = None \<or>
            (\<exists>b. Block_Body m = Some b \<and> Body_ExecutionPayload b = None))))))) \<and>
    (\<forall>p m b e. Electra v = Some p \<and> Message p = Some m \<and> Block_Body m = Some b \<and>
       Body_ExecutionPayload b = Some e \<longrightarrow> ExecutionBlockHash v = (BlockHash e, None))"
    by (simp add: tag ExecutionBlockHash_def split: option.split)
qed

lemma ExecutionBlockHash_zero_on_error:
  "snd (ExecutionBlockHash v) \<noteq> None \<longrightarrow> fst (ExecutionBlockHash v) = 0"
proof (cases "Version v")
  case DataVersionBellatrix
  then show ?thesis by (simp add: ExecutionBlockHash_def split: option.split)
next
  case DataVersionCapella
  then show ?thesis by (simp add: ExecutionBlockHash_def split: option.split)
next
  case DataVersionDeneb
  then show ?thesis by (simp add: ExecutionBlockHash_def split: option.split)
next
  case DataVersionElectra
  then show ?thesis by (simp add: ExecutionBlockHash_def split: option.split)
next
  case (DataVersionOther n)
  then show ?thesis by (simp add: ExecutionBlockHash_def)
qed

lemma Attestations_Bellatrix:
  assumes tag: "Version v = DataVersionBellatrix"
  shows "((Bellatrix v = None \<or>
       (\<exists>p. Bellatrix v = Some p \<and> (Message p = None \<or>
         (\<exists>m. Message p = Some m \<and> Block_Body m = None)))) \<longrightarrow>
       Attestations v = (None, Some ErrDataMissing)) \<and>
    (\<forall>p m b. Bellatrix v = Some p \<and> Message p = Some m \<and> Block_Body m = Some b \<longrightarrow>
       (\<exists>xs. Attestations v = (Some xs, None) \<and>
          xs = map (\<lambda>x. \<lparr>VA_Version = DataVersionBellatrix, VA_Bellatrix = x, VA_Capella = None,
              VA_Deneb = None, VA_Electra = None\<rparr>)
                 (elems (Body_Attestations b)) \<and>
          length xs = len (Body_Attestations b) \<and>
          (\<forall>i<length xs. VA_Version (xs ! i) = DataVersionBellatrix \<and>
             VA_Bellatrix (xs ! i) = elems (Body_Attestations b) ! i)))"
  by (simp add: tag Attestations_def range_fill_make_slice length_elems
      split: option.split)

lemma AttesterSlashings_Bellatrix:
  assumes tag: "Version v = DataVersionBellatrix"
  shows "((Bellatrix v = None \<or>
       (\<exists>p. Bellatrix v = Some p \<and> (Message p = None \<or>
         (\<exists>m. Message p = Some m \<and> Block_Body m = None)))) \<longrightarrow>
       AttesterSlashings v = (None, Some ErrDataMissing)) \<and>
    (\<forall>p m b. Bellatrix v = Some p \<and> Message p = Some m \<and> Block_Body m = Some b \<longrightarrow>
       (\<exists>xs. AttesterSlashings v = (Some xs, None) \<and>
          xs = map (\<lambda>x. \<lparr>VAS_Version = DataVersionBellatrix, VAS_Bellatrix = x, VAS_Capella = None,
              VAS_Deneb = None, VAS_Electra = None\<rparr>)
                 (elems (Body_AttesterSlashings b)) \<and>
          length xs = len (Body_AttesterSlashings b) \<and>
          (\<forall>i<length xs. VAS_Version (xs ! i) = DataVersionBellatrix \<and>
             VAS_Bellatrix (xs ! i) = elems (Body_AttesterSlashings b) ! i)))"
  by (simp add: tag AttesterSlashings_def range_fill_make_slice length_elems
      split: option.split)

lemma collections_Bellatrix:
  "Version v = DataVersionBellatrix \<longrightarrow>
    ((Bellatrix v = None \<or>
       (\<exists>p. Bellatrix v = Some p \<and> (Message p = None \<or>
         (\<exists>m. Message p = Some m \<and> Block_Body m = None)))) \<longrightarrow>
       Attestations v = (None, Some ErrDataMissing)) \<and>
    (\<forall>p m b. Bellatrix v = Some p \<and> Message p = Some m \<and> Block_Body m = Some b \<longrightarrow>
       (\<exists>xs. Attestations v = (Some xs, None) \<and>
          xs = map (\<lambda>x. \<lparr>VA_Version = DataVersionBellatrix, VA_Bellatrix = x, VA_Capella = None,
              VA_Deneb = None, VA_Electra = None\<rparr>)
                 (elems (Body_Attestations b)) \<and>
          length xs = len (Body_Attestations b) \<and>
          (\<forall>i<length xs. VA_Version (xs ! i) = DataVersionBellatrix \<and>
             VA_Bellatrix (xs ! i) = elems (Body_Attestations b) ! i))) \<and>
    ((Bellatrix v = None \<or>
       (\<exists>p. Bellatrix v = Some p \<and> (Message p = None \<or>
         (\<exists>m. Message p = Some m \<and> Block_Body m = None)))) \<longrightarrow>
       AttesterSlashings v = (None, Some ErrDataMissing)) \<and>
    (\<forall>p m b. Bellatrix v = Some p \<and> Message p = Some m \<and> Block_Body m = Some b \<longrightarrow>
       (\<exists>xs. AttesterSlashings v = (Some xs, None) \<and>
          xs = map (\<lambda>x. \<lparr>VAS_Version = DataVersionBellatrix, VAS_Bellatrix = x, VAS_Capella = None,
              VAS_Deneb = None, VAS_Electra = None\<rparr>)
                 (elems (Body_AttesterSlashings b)) \<and>
          length xs = len (Body_AttesterSlashings b) \<and>
          (\<forall>i<length xs. VAS_Version (xs ! i) = DataVersionBellatrix \<and>
             VAS_Bellatrix (xs ! i) = elems (Body_AttesterSlashings b) ! i)))"
  apply (rule impI)
  subgoal premises tag
    by (rule conjI [OF Attestations_Bellatrix [OF tag, THEN conjunct1]
          conjI [OF Attestations_Bellatrix [OF tag, THEN conjunct2] AttesterSlashings_Bellatrix [OF tag]]])
  done

lemma Attestations_Capella:
  assumes tag: "Version v = DataVersionCapella"
  shows "((Capella v = None \<or>
       (\<exists>p. Capella v = Some p \<and> (Message p = None \<or>
         (\<exists>m. Message p = Some m \<and> Block_Body m = None)))) \<longrightarrow>
       Attestations v = (None, Some ErrDataMissing)) \<and>
    (\<forall>p m b. Capella v = Some p \<and> Message p = Some m \<and> Block_Body m = Some b \<longrightarrow>
       (\<exists>xs. Attestations v = (Some xs, None) \<and>
          xs = map (\<lambda>x. \<lparr>VA_Version = DataVersionCapella, VA_Bellatrix = None, VA_Capella = x,
              VA_Deneb = None, VA_Electra = None\<rparr>)
                 (elems (Body_Attestations b)) \<and>
          length xs = len (Body_Attestations b) \<and>
          (\<forall>i<length xs. VA_Version (xs ! i) = DataVersionCapella \<and>
             VA_Capella (xs ! i) = elems (Body_Attestations b) ! i)))"
  by (simp add: tag Attestations_def range_fill_make_slice length_elems
      split: option.split)

lemma AttesterSlashings_Capella:
  assumes tag: "Version v = DataVersionCapella"
  shows "((Capella v = None \<or>
       (\<exists>p. Capella v = Some p \<and> (Message p = None \<or>
         (\<exists>m. Message p = Some m \<and> Block_Body m = None)))) \<longrightarrow>
       AttesterSlashings v = (None, Some ErrDataMissing)) \<and>
    (\<forall>p m b. Capella v = Some p \<and> Message p = Some m \<and> Block_Body m = Some b \<longrightarrow>
       (\<exists>xs. AttesterSlashings v = (Some xs, None) \<and>
          xs = map (\<lambda>x. \<lparr>VAS_Version = DataVersionCapella, VAS_Bellatrix = None, VAS_Capella = x,
              VAS_Deneb = None, VAS_Electra = None\<rparr>)
                 (elems (Body_AttesterSlashings b)) \<and>
          length xs = len (Body_AttesterSlashings b) \<and>
          (\<forall>i<length xs. VAS_Version (xs ! i) = DataVersionCapella \<and>
             VAS_Capella (xs ! i) = elems (Body_AttesterSlashings b) ! i)))"
  by (simp add: tag AttesterSlashings_def range_fill_make_slice length_elems
      split: option.split)

lemma collections_Capella:
  "Version v = DataVersionCapella \<longrightarrow>
    ((Capella v = None \<or>
       (\<exists>p. Capella v = Some p \<and> (Message p = None \<or>
         (\<exists>m. Message p = Some m \<and> Block_Body m = None)))) \<longrightarrow>
       Attestations v = (None, Some ErrDataMissing)) \<and>
    (\<forall>p m b. Capella v = Some p \<and> Message p = Some m \<and> Block_Body m = Some b \<longrightarrow>
       (\<exists>xs. Attestations v = (Some xs, None) \<and>
          xs = map (\<lambda>x. \<lparr>VA_Version = DataVersionCapella, VA_Bellatrix = None, VA_Capella = x,
              VA_Deneb = None, VA_Electra = None\<rparr>)
                 (elems (Body_Attestations b)) \<and>
          length xs = len (Body_Attestations b) \<and>
          (\<forall>i<length xs. VA_Version (xs ! i) = DataVersionCapella \<and>
             VA_Capella (xs ! i) = elems (Body_Attestations b) ! i))) \<and>
    ((Capella v = None \<or>
       (\<exists>p. Capella v = Some p \<and> (Message p = None \<or>
         (\<exists>m. Message p = Some m \<and> Block_Body m = None)))) \<longrightarrow>
       AttesterSlashings v = (None, Some ErrDataMissing)) \<and>
    (\<forall>p m b. Capella v = Some p \<and> Message p = Some m \<and> Block_Body m = Some b \<longrightarrow>
       (\<exists>xs. AttesterSlashings v = (Some xs, None) \<and>
          xs = map (\<lambda>x. \<lparr>VAS_Version = DataVersionCapella, VAS_Bellatrix = None, VAS_Capella = x,
              VAS_Deneb = None, VAS_Electra = None\<rparr>)
                 (elems (Body_AttesterSlashings b)) \<and>
          length xs = len (Body_AttesterSlashings b) \<and>
          (\<forall>i<length xs. VAS_Version (xs ! i) = DataVersionCapella \<and>
             VAS_Capella (xs ! i) = elems (Body_AttesterSlashings b) ! i)))"
  apply (rule impI)
  subgoal premises tag
    by (rule conjI [OF Attestations_Capella [OF tag, THEN conjunct1]
          conjI [OF Attestations_Capella [OF tag, THEN conjunct2] AttesterSlashings_Capella [OF tag]]])
  done

lemma Attestations_Deneb:
  assumes tag: "Version v = DataVersionDeneb"
  shows "((Deneb v = None \<or>
       (\<exists>p. Deneb v = Some p \<and> (Message p = None \<or>
         (\<exists>m. Message p = Some m \<and> Block_Body m = None)))) \<longrightarrow>
       Attestations v = (None, Some ErrDataMissing)) \<and>
    (\<forall>p m b. Deneb v = Some p \<and> Message p = Some m \<and> Block_Body m = Some b \<longrightarrow>
       (\<exists>xs. Attestations v = (Some xs, None) \<and>
          xs = map (\<lambda>x. \<lparr>VA_Version = DataVersionDeneb, VA_Bellatrix = None, VA_Capella = None,
              VA_Deneb = x, VA_Electra = None\<rparr>)
                 (elems (Body_Attestations b)) \<and>
          length xs = len (Body_Attestations b) \<and>
          (\<forall>i<length xs. VA_Version (xs ! i) = DataVersionDeneb \<and>
             VA_Deneb (xs ! i) = elems (Body_Attestations b) ! i)))"
  by (simp add: tag Attestations_def range_fill_make_slice length_elems
      split: option.split)

lemma AttesterSlashings_Deneb:
  assumes tag: "Version v = DataVersionDeneb"
  shows "((Deneb v = None \<or>
       (\<exists>p. Deneb v = Some p \<and> (Message p = None \<or>
         (\<exists>m. Message p = Some m \<and> Block_Body m = None)))) \<longrightarrow>
       AttesterSlashings v = (None, Some ErrDataMissing)) \<and>
    (\<forall>p m b. Deneb v = Some p \<and> Message p = Some m \<and> Block_Body m = Some b \<longrightarrow>
       (\<exists>xs. AttesterSlashings v = (Some xs, None) \<and>
          xs = map (\<lambda>x. \<lparr>VAS_Version = DataVersionDeneb, VAS_Bellatrix = None, VAS_Capella = None,
              VAS_Deneb = x, VAS_Electra = None\<rparr>)
                 (elems (Body_AttesterSlashings b)) \<and>
          length xs = len (Body_AttesterSlashings b) \<and>
          (\<forall>i<length xs. VAS_Version (xs ! i) = DataVersionDeneb \<and>
             VAS_Deneb (xs ! i) = elems (Body_AttesterSlashings b) ! i)))"
  by (simp add: tag AttesterSlashings_def range_fill_make_slice length_elems
      split: option.split)

lemma collections_Deneb:
  "Version v = DataVersionDeneb \<longrightarrow>
    ((Deneb v = None \<or>
       (\<exists>p. Deneb v = Some p \<and> (Message p = None \<or>
         (\<exists>m. Message p = Some m \<and> Block_Body m = None)))) \<longrightarrow>
       Attestations v = (None, Some ErrDataMissing)) \<and>
    (\<forall>p m b. Deneb v = Some p \<and> Message p = Some m \<and> Block_Body m = Some b \<longrightarrow>
       (\<exists>xs. Attestations v = (Some xs, None) \<and>
          xs = map (\<lambda>x. \<lparr>VA_Version = DataVersionDeneb, VA_Bellatrix = None, VA_Capella = None,
              VA_Deneb = x, VA_Electra = None\<rparr>)
                 (elems (Body_Attestations b)) \<and>
          length xs = len (Body_Attestations b) \<and>
          (\<forall>i<length xs. VA_Version (xs ! i) = DataVersionDeneb \<and>
             VA_Deneb (xs ! i) = elems (Body_Attestations b) ! i))) \<and>
    ((Deneb v = None \<or>
       (\<exists>p. Deneb v = Some p \<and> (Message p = None \<or>
         (\<exists>m. Message p = Some m \<and> Block_Body m = None)))) \<longrightarrow>
       AttesterSlashings v = (None, Some ErrDataMissing)) \<and>
    (\<forall>p m b. Deneb v = Some p \<and> Message p = Some m \<and> Block_Body m = Some b \<longrightarrow>
       (\<exists>xs. AttesterSlashings v = (Some xs, None) \<and>
          xs = map (\<lambda>x. \<lparr>VAS_Version = DataVersionDeneb, VAS_Bellatrix = None, VAS_Capella = None,
              VAS_Deneb = x, VAS_Electra = None\<rparr>)
                 (elems (Body_AttesterSlashings b)) \<and>
          length xs = len (Body_AttesterSlashings b) \<and>
          (\<forall>i<length xs. VAS_Version (xs ! i) = DataVersionDeneb \<and>
             VAS_Deneb (xs ! i) = elems (Body_AttesterSlashings b) ! i)))"
  apply (rule impI)
  subgoal premises tag
    by (rule conjI [OF Attestations_Deneb [OF tag, THEN conjunct1]
          conjI [OF Attestations_Deneb [OF tag, THEN conjunct2] AttesterSlashings_Deneb [OF tag]]])
  done

lemma Attestations_Electra:
  assumes tag: "Version v = DataVersionElectra"
  shows "((Electra v = None \<or>
       (\<exists>p. Electra v = Some p \<and> (Message p = None \<or>
         (\<exists>m. Message p = Some m \<and> Block_Body m = None)))) \<longrightarrow>
       Attestations v = (None, Some ErrDataMissing)) \<and>
    (\<forall>p m b. Electra v = Some p \<and> Message p = Some m \<and> Block_Body m = Some b \<longrightarrow>
       (\<exists>xs. Attestations v = (Some xs, None) \<and>
          xs = map (\<lambda>x. \<lparr>VA_Version = DataVersionElectra, VA_Bellatrix = None, VA_Capella = None,
              VA_Deneb = None, VA_Electra = x\<rparr>)
                 (elems (Body_Attestations b)) \<and>
          length xs = len (Body_Attestations b) \<and>
          (\<forall>i<length xs. VA_Version (xs ! i) = DataVersionElectra \<and>
             VA_Electra (xs ! i) = elems (Body_Attestations b) ! i)))"
  by (simp add: tag Attestations_def range_fill_make_slice length_elems
      split: option.split)

lemma AttesterSlashings_Electra:
  assumes tag: "Version v = DataVersionElectra"
  shows "((Electra v = None \<or>
       (\<exists>p. Electra v = Some p \<and> (Message p = None \<or>
         (\<exists>m. Message p = Some m \<and> Block_Body m = None)))) \<longrightarrow>
       AttesterSlashings v = (None, Some ErrDataMissing)) \<and>
    (\<forall>p m b. Electra v = Some p \<and> Message p = Some m \<and> Block_Body m = Some b \<longrightarrow>
       (\<exists>xs. AttesterSlashings v = (Some xs, None) \<and>
          xs = map (\<lambda>x. \<lparr>VAS_Version = DataVersionElectra, VAS_Bellatrix = None, VAS_Capella = None,
              VAS_Deneb = None, VAS_Electra = x\<rparr>)
                 (elems (Body_AttesterSlashings b)) \<and>
          length xs = len (Body_AttesterSlashings b) \<and>
          (\<forall>i<length xs. VAS_Version (xs ! i) = DataVersionElectra \<and>
             VAS_Electra (xs ! i) = elems (Body_AttesterSlashings b) ! i)))"
  by (simp add: tag AttesterSlashings_def range_fill_make_slice length_elems
      split: option.split)

lemma collections_Electra:
  "Version v = DataVersionElectra \<longrightarrow>
    ((Electra v = None \<or>
       (\<exists>p. Electra v = Some p \<and> (Message p = None \<or>
         (\<exists>m. Message p = Some m \<and> Block_Body m = None)))) \<longrightarrow>
       Attestations v = (None, Some ErrDataMissing)) \<and>
    (\<forall>p m b. Electra v = Some p \<and> Message p = Some m \<and> Block_Body m = Some b \<longrightarrow>
       (\<exists>xs. Attestations v = (Some xs, None) \<and>
          xs = map (\<lambda>x. \<lparr>VA_Version = DataVersionElectra, VA_Bellatrix = None, VA_Capella = None,
              VA_Deneb = None, VA_Electra = x\<rparr>)
                 (elems (Body_Attestations b)) \<and>
          length xs = len (Body_Attestations b) \<and>
          (\<forall>i<length xs. VA_Version (xs ! i) = DataVersionElectra \<and>
             VA_Electra (xs ! i) = elems (Body_Attestations b) ! i))) \<and>
    ((Electra v = None \<or>
       (\<exists>p. Electra v = Some p \<and> (Message p = None \<or>
         (\<exists>m. Message p = Some m \<and> Block_Body m = None)))) \<longrightarrow>
       AttesterSlashings v = (None, Some ErrDataMissing)) \<and>
    (\<forall>p m b. Electra v = Some p \<and> Message p = Some m \<and> Block_Body m = Some b \<longrightarrow>
       (\<exists>xs. AttesterSlashings v = (Some xs, None) \<and>
          xs = map (\<lambda>x. \<lparr>VAS_Version = DataVersionElectra, VAS_Bellatrix = None, VAS_Capella = None,
              VAS_Deneb = None, VAS_Electra = x\<rparr>)
                 (elems (Body_AttesterSlashings b)) \<and>
          length xs = len (Body_AttesterSlashings b) \<and>
          (\<forall>i<length xs. VAS_Version (xs ! i) = DataVersionElectra \<and>
             VAS_Electra (xs ! i) = elems (Body_AttesterSlashings b) ! i)))"
  apply (rule impI)
  subgoal premises tag
    by (rule conjI [OF Attestations_Electra [OF tag, THEN conjunct1]
          conjI [OF Attestations_Electra [OF tag, THEN conjunct2] AttesterSlashings_Electra [OF tag]]])
  done

lemma ReplaceAll_no_old: "a \<noteq> b \<Longrightarrow> a \<notin> set (ReplaceAll s [a] [b])"
  by (auto simp add: ReplaceAll_single)

section \<open>Properties of the accessors\<close>

text \<open>Claim C2. For each of the four known tags, when the tag's payload and its
  message are present, \<open>Slot\<close>, \<open>ParentRoot\<close> and \<open>StateRoot\<close> return the message's
  slot, parent root and state root, each with the nil error.\<close>

theorem scalar_accessors_return_message_fields:
  "(Version v = DataVersionBellatrix \<and> Bellatrix v = Some p \<and> Message p = Some m \<longrightarrow>
      Slot v = (Block_Slot m, None) \<and> ParentRoot v = (Block_ParentRoot m, None) \<and>
      StateRoot v = (Block_StateRoot m, None)) \<and>
   (Version v = DataVersionCapella \<and> Capella v = Some p \<and> Message p = Some m \<longrightarrow>
      Slot v = (Block_Slot m, None) \<and> ParentRoot v = (Block_ParentRoot m, None) \<and>
      StateRoot v = (Block_StateRoot m, None)) \<and>
   (Version v = DataVersionDeneb \<and> Deneb v = Some p \<and> Message p = Some m \<longrightarrow>
      Slot v = (Block_Slot m, None) \<and> ParentRoot v = (Block_ParentRoot m, None) \<and>
      StateRoot v = (Block_StateRoot m, None)) \<and>
   (Version v = DataVersionElectra \<and> Electra v = Some pe \<and> Message pe = Some me \<longrightarrow>
      Slot v = (Block_Slot me, None) \<and> ParentRoot v = (Block_ParentRoot me, None) \<and>
      StateRoot v = (Block_StateRoot me, None))"
  by (simp add: Slot_def ParentRoot_def StateRoot_def)

theorem scalar_accessors_return_message_fields_witness:
  "Slot ex_bellatrix = (12345, None) \<and> ParentRoot ex_bellatrix = (7, None) \<and>
   StateRoot ex_bellatrix = (9, None) \<and>
   Slot ex_capella = (12345, None) \<and> ParentRoot ex_capella = (7, None) \<and>
   StateRoot ex_capella = (9, None) \<and>
   Slot ex_deneb = (12345, None) \<and> ParentRoot ex_deneb = (7, None) \<and>
   StateRoot ex_deneb = (9, None) \<and>
   Slot ex_electra = (12345, None) \<and> ParentRoot ex_electra = (7, None) \<and>
   StateRoot ex_electra = (9, None)"
proof -
  have hB: "Version ex_bellatrix = DataVersionBellatrix \<and> Bellatrix ex_bellatrix = Some ex_signed"
    and hC: "Version ex_capella = DataVersionCapella \<and> Capella ex_capella = Some ex_signed"
    and hD: "Version ex_deneb = DataVersionDeneb \<and> Deneb ex_deneb = Some ex_signed"
    and hE: "Version ex_electra = DataVersionElectra \<and> Electra ex_electra = Some ex_signed"
    by (simp_all add: ex_bellatrix_def ex_capella_def ex_deneb_def ex_electra_def)
  have hm: "Message ex_signed = Some ex_block"
    by (simp add: ex_signed_def)
  have fields: "Block_Slot ex_block = 12345 \<and> Block_ParentRoot ex_block = 7 \<and>
      Block_StateRoot ex_block = 9"
    by (simp add: ex_block_def)
  show ?thesis
    using scalar_accessors_return_message_fields [of ex_bellatrix ex_signed ex_block ex_signed ex_block]
      scalar_accessors_return_message_fields [of ex_capella ex_signed ex_block ex_signed ex_block]
      scalar_accessors_return_message_fields [of ex_deneb ex_signed ex_block ex_signed ex_block]
      scalar_accessors_return_message_fields [of ex_electra ex_signed ex_block ex_signed ex_block]
      hB hC hD hE hm fields
    by simp
qed

text \<open>Claim C1. When the tag is none of Bellatrix, Capella, Deneb and Electra, each of
  the ten accessors returns the zero value of its result type together with the
  unsupported-version error. The envelope \<open>v\<close> is arbitrary, so the result is the same
  whatever the four payload slots hold: no slot is read. The hashing methods passed to
  \<open>Root\<close> and \<open>BodyRoot\<close> are arbitrary as well and are not called.\<close>

theorem unsupported_version_every_accessor:
  assumes "Version v \<notin> {DataVersionBellatrix, DataVersionCapella, DataVersionDeneb,
                         DataVersionElectra}"
  shows "Slot v = (0, Some ErrUnsupportedVersion) \<and>
    ExecutionBlockHash v = (0, Some ErrUnsupportedVersion) \<and>
    Attestations v = (None, Some ErrUnsupportedVersion) \<and>
    Root hB hC hD hE v = (0, Some ErrUnsupportedVersion) \<and>
    BodyRoot gB gC gD gE v = (0, Some ErrUnsupportedVersion) \<and>
    ParentRoot v = (0, Some ErrUnsupportedVersion) \<and>
    StateRoot v = (0, Some ErrUnsupportedVersion) \<and>
    AttesterSlashings v = (None, Some ErrUnsupportedVersion) \<and>
    ProposerSlashings v = (None, Some ErrUnsupportedVersion) \<and>
    SyncAggregate v = (None, Some ErrUnsupportedVersion)"
proof -
  from assms obtain n where tag: "Version v = DataVersionOther n"
    by (cases "Version v") simp_all
  show ?thesis
    by (simp add: tag Slot_def ExecutionBlockHash_def Attestations_def Root_def BodyRoot_def
        ParentRoot_def StateRoot_def AttesterSlashings_def ProposerSlashings_def
        SyncAggregate_def)
qed

theorem unsupported_version_every_accessor_witness:
  "Slot ex_unsupported = (0, Some ErrUnsupportedVersion) \<and>
    ExecutionBlockHash ex_unsupported = (0, Some ErrUnsupportedVersion) \<and>
    Attestations ex_unsupported = (None, Some ErrUnsupportedVersion) \<and>
    Root (\<lambda>m. (1, None)) (\<lambda>m. (1, None)) (\<lambda>m. (1, None)) (\<lambda>m. (1, None)) ex_unsupported
      = (0, Some ErrUnsupportedVersion) \<and>
    BodyRoot (\<lambda>b. (1, None)) (\<lambda>b. (1, None)) (\<lambda>b. (1, None)) (\<lambda>b. (1, None)) ex_unsupported
      = (0, Some ErrUnsupportedVersion) \<and>
    ParentRoot ex_unsupported = (0, Some ErrUnsupportedVersion) \<and>
    StateRoot ex_unsupported = (0, Some ErrUnsupportedVersion) \<and>
    AttesterSlashings ex_unsupported = (None, Some ErrUnsupportedVersion) \<and>
    ProposerSlashings ex_unsupported = (None, Some ErrUnsupportedVersion) \<and>
    SyncAggregate ex_unsupported = (None, Some ErrUnsupportedVersion)"
proof -
  have h: "Version ex_unsupported \<notin> {DataVersionBellatrix, DataVersionCapella,
      DataVersionDeneb, DataVersionElectra}"
    by (simp add: ex_unsupported_def)
  show ?thesis
    by (rule unsupported_version_every_accessor [OF h])
qed

text \<open>Claim C3. For each known tag, \<open>ExecutionBlockHash\<close> returns the data-missing
  error exactly when one of the four links payload, message, body, execution payload on
  the tag's slot is nil; when all four are present it returns the execution payload's
  block hash with the nil error; and whenever it returns an error, the hash it returns
  is the zero value.\<close>

theorem ExecutionBlockHash_missing_iff:
  "(Version v = DataVersionBellatrix \<longrightarrow>
      (snd (ExecutionBlockHash v) = Some ErrDataMissing \<longleftrightarrow>
         (Bellatrix v = None \<or>
          (\<exists>p. Bellatrix v = Some p \<and> (Message p = None \<or>
            (\<exists>m. Message p = Some m \<and> (Block_Body m = None \<or>
              (\<exists>b. Block_Body m = Some b \<and> Body_ExecutionPayload b = None))))))) \<and>
      (\<forall>p m b e. Bellatrix v = Some p \<and> Message p = Some m \<and> Block_Body m = Some b \<and>
         Body_ExecutionPayload b = Some e \<longrightarrow> ExecutionBlockHash v = (BlockHash e, None))) \<and>
   (Version v = DataVersionCapella \<longrightarrow>
      (snd (ExecutionBlockHash v) = Some ErrDataMissing \<longleftrightarrow>
         (Capella v = None \<or>
          (\<exists>p. Capella v = Some p \<and> (Message p = None \<or>
            (\<exists>m. Message p = Some m \<and> (Block_Body m = None \<or>
              (\<exists>b. Block_Body m = Some b \<and> Body_ExecutionPayload b = None))))))) \<and>
      (\<forall>p m b e. Capella v = Some p \<and> Message p = Some m \<and> Block_Body m = Some b \<and>
         Body_ExecutionPayload b = Some e \<longrightarrow> ExecutionBlockHash v = (BlockHash e, None))) \<and>
   (Version v = DataVersionDeneb \<longrightarrow>
      (snd (ExecutionBlockHash v) = Some ErrDataMissing \<longleftrightarrow>
         (Deneb v = None \<or>
          (\<exists>p. Deneb v = Some p \<and> (Message p = None \<or>
            (\<exists>m. Message p = Some m \<and> (Block_Body m = None \<or>
              (\<exists>b. Block_Body m = Some b \<and> Body_ExecutionPayload b = None))))))) \<and>
      (\<forall>p m b e. Deneb v = Some p \<and> Message p = Some m \<and> Block_Body m = Some b \<and>
         Body_ExecutionPayload b = Some e \<longrightarrow> ExecutionBlockHash v = (BlockHash e, None))) \<and>
   (Version v = DataVersionElectra \<longrightarrow>
      (snd (ExecutionBlockHash v) = Some ErrDataMissing \<longleftrightarrow>
         (Electra v = None \<or>
          (\<exists>p. Electra v = Some p \<and> (Message p = None \<or>
            (\<exists>m. Message p = Some m \<and> (Block_Body m = None \<or>
              (\<exists>b. Block_Body m = Some b \<and> Body_ExecutionPayload b = None))))))) \<and>
      (\<forall>p m b e. Electra v = Some p \<and> Message p = Some m \<and> Block_Body m = Some b \<and>
         Body_ExecutionPayload b = Some e \<longrightarrow> ExecutionBlockHash v = (BlockHash e, None))) \<and>
   (snd (ExecutionBlockHash v) \<noteq> None \<longrightarrow> fst (ExecutionBlockHash v) = 0)"
  by (intro conjI ExecutionBlockHash_Bellatrix ExecutionBlockHash_Capella ExecutionBlockHash_Deneb
      ExecutionBlockHash_Electra ExecutionBlockHash_zero_on_error)

theorem ExecutionBlockHash_missing_iff_witness:
  "ExecutionBlockHash ex_bellatrix = (0xABC, None) \<and>
   ExecutionBlockHash ex_capella = (0xABC, None) \<and>
   ExecutionBlockHash ex_deneb = (0xABC, None) \<and>
   ExecutionBlockHash ex_electra = (0xABC, None) \<and>
   snd (ExecutionBlockHash ex_bellatrix_no_body) = Some ErrDataMissing \<and>
   fst (ExecutionBlockHash ex_bellatrix_no_body) = 0"
proof -
  have hB: "Version ex_bellatrix = DataVersionBellatrix \<and> Bellatrix ex_bellatrix = Some ex_signed"
    and hC: "Version ex_capella = DataVersionCapella \<and> Capella ex_capella = Some ex_signed"
    and hD: "Version ex_deneb = DataVersionDeneb \<and> Deneb ex_deneb = Some ex_signed"
    and hE: "Version ex_electra = DataVersionElectra \<and> Electra ex_electra = Some ex_signed"
    by (simp_all add: ex_bellatrix_def ex_capella_def ex_deneb_def ex_electra_def)
  have path: "Message ex_signed = Some ex_block \<and> Block_Body ex_block = Some ex_body \<and>
      Body_ExecutionPayload ex_body = Some \<lparr>BlockHash = 0xABC\<rparr>"
    by (simp add: ex_signed_def ex_block_def ex_body_def)
  have hN: "Version ex_bellatrix_no_body = DataVersionBellatrix \<and>
      Bellatrix ex_bellatrix_no_body = Some \<lparr>Message = Some (ex_block\<lparr>Block_Body := None\<rparr>)\<rparr>"
    by (simp add: ex_bellatrix_no_body_def)
  show ?thesis
    using ExecutionBlockHash_missing_iff [of ex_bellatrix]
      ExecutionBlockHash_missing_iff [of ex_capella]
      ExecutionBlockHash_missing_iff [of ex_deneb]
      ExecutionBlockHash_missing_iff [of ex_electra]
      ExecutionBlockHash_missing_iff [of ex_bellatrix_no_body]
      hB hC hD hE hN path
    by simp
qed

text \<open>Claim C4. For each known tag: if the tag's payload, its message or the message's
  body is nil, \<open>Attestations\<close> returns the nil slice with the data-missing error;
  otherwise it returns, with the nil error, a slice built anew whose length is the
  length of the body's attestations and whose \<open>i\<close>-th element carries the envelope's
  tag and, in the slot of that tag, the \<open>i\<close>-th source attestation (all other slots
  nil): the source list mapped element by element, nothing dropped or reordered.
  \<open>AttesterSlashings\<close> does the same over the body's attester slashings.\<close>

theorem collection_accessors_wrap_elementwise:
  "(Version v = DataVersionBellatrix \<longrightarrow>
    ((Bellatrix v = None \<or>
       (\<exists>p. Bellatrix v = Some p \<and> (Message p = None \<or>
         (\<exists>m. Message p = Some m \<and> Block_Body m = None)))) \<longrightarrow>
       Attestations v = (None, Some ErrDataMissing)) \<and>
    (\<forall>p m b. Bellatrix v = Some p \<and> Message p = Some m \<and> Block_Body m = Some b \<longrightarrow>
       (\<exists>xs. Attestations v = (Some xs, None) \<and>
          xs = map (\<lambda>x. \<lparr>VA_Version = DataVersionBellatrix, VA_Bellatrix = x, VA_Capella = None,
              VA_Deneb = None, VA_Electra = None\<rparr>)
                 (elems (Body_Attestations b)) \<and>
          length xs = len (Body_Attestations b) \<and>
          (\<forall>i<length xs. VA_Version (xs ! i) = DataVersionBellatrix \<and>
             VA_Bellatrix (xs ! i) = elems (Body_Attestations b) ! i))) \<and>
    ((Bellatrix v = None \<or>
       (\<exists>p. Bellatrix v = Some p \<and> (Message p = None \<or>
         (\<exists>m. Message p = Some m \<and> Block_Body m = None)))) \<longrightarrow>
       AttesterSlashings v = (None, Some ErrDataMissing)) \<and>
    (\<forall>p m b. Bellatrix v = Some p \<and> Message p = Some m \<and> Block_Body m = Some b \<longrightarrow>
       (\<exists>xs. AttesterSlashings v = (Some xs, None) \<and>
          xs = map (\<lambda>x. \<lparr>VAS_Version = DataVersionBellatrix, VAS_Bellatrix = x, VAS_Capella = None,
              VAS_Deneb = None, VAS_Electra = None\<rparr>)
                 (elems (Body_AttesterSlashings b)) \<and>
          length xs = len (Body_AttesterSlashings b) \<and>
          (\<forall>i<length xs. VAS_Version (xs ! i) = DataVersionBellatrix \<and>
             VAS_Bellatrix (xs ! i) = elems (Body_AttesterSlashings b) ! i)))) \<and>
   (Version v = DataVersionCapella \<longrightarrow>
    ((Capella v = None \<or>
       (\<exists>p. Capella v = Some p \<and> (Message p = None \<or>
         (\<exists>m. Message p = Some m \<and> Block_Body m = None)))) \<longrightarrow>
       Attestations v = (None, Some ErrDataMissing)) \<and>
    (\<forall>p m b. Capella v = Some p \<and> Message p = Some m \<and> Block_Body m = Some b \<longrightarrow>
       (\<exists>xs. Attestations v = (Some xs, None) \<and>
          xs = map (\<lambda>x. \<lparr>VA_Version = DataVersionCapella, VA_Bellatrix = None, VA_Capella = x,
              VA_Deneb = None, VA_Electra = None\<rparr>)
                 (elems (Body_Attestations b)) \<and>
          length xs = len (Body_Attestations b) \<and>
          (\<forall>i<length xs. VA_Version (xs ! i) = DataVersionCapella \<and>
             VA_Capella (xs ! i) = elems (Body_Attestations b) ! i))) \<and>
    ((Capella v = None \<or>
       (\<exists>p. Capella v = Some p \<and> (Message p = None \<or>
         (\<exists>m. Message p = Some m \<and> Block_Body m = None)))) \<longrightarrow>
       AttesterSlashings v = (None, Some ErrDataMissing)) \<and>
    (\<forall>p m b. Capella v = Some p \<and> Message p = Some m \<and> Block_Body m = Some b \<longrightarrow>
       (\<exists>xs. AttesterSlashings v = (Some xs, None) \<and>
          xs = map (\<lambda>x. \<lparr>VAS_Version = DataVersionCapella, VAS_Bellatrix = None, VAS_Capella = x,
              VAS_Deneb = None, VAS_Electra = None\<rparr>)
                 (elems (Body_AttesterSlashings b)) \<and>
          length xs = len (Body_AttesterSlashings b) \<and>
          (\<forall>i<length xs. VAS_Version (xs ! i) = DataVersionCapella \<and>
             VAS_Capella (xs ! i) = elems (Body_AttesterSlashings b) ! i)))) \<and>
   (Version v = DataVersionDeneb \<longrightarrow>
    ((Deneb v = None \<or>
       (\<exists>p. Deneb v = Some p \<and> (Message p = None \<or>
         (\<exists>m. Message p = Some m \<and> Block_Body m = None)))) \<longrightarrow>
       Attestations v = (None, Some ErrDataMissing)) \<and>
    (\<forall>p m b. Deneb v = Some p \<and> Message p = Some m \<and> Block_Body m = Some b \<longrightarrow>
       (\<exists>xs. Attestations v = (Some xs, None) \<and>
          xs = map (\<lambda>x. \<lparr>VA_Version = DataVersionDeneb, VA_Bellatrix = None, VA_Capella = None,
              VA_Deneb = x, VA_Electra = None\<rparr>)
                 (elems (Body_Attestations b)) \<and>
          length xs = len (Body_Attestations b) \<and>
          (\<forall>i<length xs. VA_Version (xs ! i) = DataVersionDeneb \<and>
             VA_Deneb (xs ! i) = elems (Body_Attestations b) ! i))) \<and>
    ((Deneb v = None \<or>
       (\<exists>p. Deneb v = Some p \<and> (Message p = None \<or>
         (\<exists>m. Message p = Some m \<and> Block_Body m = None)))) \<longrightarrow>
       AttesterSlashings v = (None, Some ErrDataMissing)) \<and>
    (\<forall>p m b. Deneb v = Some p \<and> Message p = Some m \<and> Block_Body m = Some b \<longrightarrow>
       (\<exists>xs. AttesterSlashings v = (Some xs, None) \<and>
          xs = map (\<lambda>x. \<lparr>VAS_Version = DataVersionDeneb, VAS_Bellatrix = None, VAS_Capella = None,
              VAS_Deneb = x, VAS_Electra = None\<rparr>)
                 (elems (Body_AttesterSlashings b)) \<and>
          length xs = len (Body_AttesterSlashings b) \<and>
          (\<forall>i<length xs. VAS_Version (xs ! i) = DataVersionDeneb \<and>
             VAS_Deneb (xs ! i) = elems (Body_AttesterSlashings b) ! i)))) \<and>
   (Version v = DataVersionElectra \<longrightarrow>
    ((Electra v = None \<or>
       (\<exists>p. Electra v = Some p \<and> (Message p = None \<or>
         (\<exists>m. Message p = Some m \<and> Block_Body m = None)))) \<longrightarrow>
       Attestations v = (None, Some ErrDataMissing)) \<and>
    (\<forall>p m b. Electra v = Some p \<and> Message p = Some m \<and> Block_Body m = Some b \<longrightarrow>
       (\<exists>xs. Attestations v = (Some xs, None) \<and>
          xs = map (\<lambda>x. \<lparr>VA_Version = DataVersionElectra, VA_Bellatrix = None, VA_Capella = None,
              VA_Deneb = None, VA_Electra = x\<rparr>)
                 (elems (Body_Attestations b)) \<and>
          length xs = len (Body_Attestations b) \<and>
          (\<forall>i<length xs. VA_Version (xs ! i) = DataVersionElectra \<and>
             VA_Electra (xs ! i) = elems (Body_Attestations b) ! i))) \<and>
    ((Electra v = None \<or>
       (\<exists>p. Electra v = Some p \<and> (Message p = None \<or>
         (\<exists>m. Message p = Some m \<and> Block_Body m = None)))) \<longrightarrow>
       AttesterSlashings v = (None, Some ErrDataMissing)) \<and>
    (\<forall>p m b. Electra v = Some p \<and> Message p = Some m \<and> Block_Body m = Some b \<longrightarrow>
       (\<exists>xs. AttesterSlashings v = (Some xs, None) \<and>
          xs = map (\<lambda>x. \<lparr>VAS_Version = DataVersionElectra, VAS_Bellatrix = None, VAS_Capella = None,
              VAS_Deneb = None, VAS_Electra = x\<rparr>)
                 (elems (Body_AttesterSlashings b)) \<and>
          length xs = len (Body_AttesterSlashings b) \<and>
          (\<forall>i<length xs. VAS_Version (xs ! i) = DataVersionElectra \<and>
             VAS_Electra (xs ! i) = elems (Body_AttesterSlashings b) ! i))))"
  by (intro conjI collections_Bellatrix collections_Capella collections_Deneb collections_Electra)

theorem collection_accessors_wrap_elementwise_witness:
  "Attestations ex_bellatrix =
     (Some [\<lparr>VA_Version = DataVersionBellatrix, VA_Bellatrix = Some 4, VA_Capella = None, VA_Deneb = None, VA_Electra = None\<rparr>,
            \<lparr>VA_Version = DataVersionBellatrix, VA_Bellatrix = None, VA_Capella = None, VA_Deneb = None, VA_Electra = None\<rparr>,
            \<lparr>VA_Version = DataVersionBellatrix, VA_Bellatrix = Some 5, VA_Capella = None, VA_Deneb = None, VA_Electra = None\<rparr>], None) \<and>
   AttesterSlashings ex_bellatrix =
     (Some [\<lparr>VAS_Version = DataVersionBellatrix, VAS_Bellatrix = Some 2, VAS_Capella = None, VAS_Deneb = None, VAS_Electra = None\<rparr>,
            \<lparr>VAS_Version = DataVersionBellatrix, VAS_Bellatrix = Some 3, VAS_Capella = None, VAS_Deneb = None, VAS_Electra = None\<rparr>], None) \<and>
   Attestations ex_capella =
     (Some [\<lparr>VA_Version = DataVersionCapella, VA_Bellatrix = None, VA_Capella = Some 4, VA_Deneb = None, VA_Electra = None\<rparr>,
            \<lparr>VA_Version = DataVersionCapella, VA_Bellatrix = None, VA_Capella = None, VA_Deneb = None, VA_Electra = None\<rparr>,
            \<lparr>VA_Version = DataVersionCapella, VA_Bellatrix = None, VA_Capella = Some 5, VA_Deneb = None, VA_Electra = None\<rparr>], None) \<and>
   AttesterSlashings ex_capella =
     (Some [\<lparr>VAS_Version = DataVersionCapella, VAS_Bellatrix = None, VAS_Capella = Some 2, VAS_Deneb = None, VAS_Electra = None\<rparr>,
            \<lparr>VAS_Version = DataVersionCapella, VAS_Bellatrix = None, VAS_Capella = Some 3, VAS_Deneb = None, VAS_Electra = None\<rparr>], None) \<and>
   Attestations ex_deneb =
     (Some [\<lparr>VA_Version = DataVersionDeneb, VA_Bellatrix = None, VA_Capella = None, VA_Deneb = Some 4, VA_Electra = None\<rparr>,
            \<lparr>VA_Version = DataVersionDeneb, VA_Bellatrix = None, VA_Capella = None, VA_Deneb = None, VA_Electra = None\<rparr>,
            \<lparr>VA_Version = DataVersionDeneb, VA_Bellatrix = None, VA_Capella = None, VA_Deneb = Some 5, VA_Electra = None\<rparr>], None) \<and>
   AttesterSlashings ex_deneb =
     (Some [\<lparr>VAS_Version = DataVersionDeneb, VAS_Bellatrix = None, VAS_Capella = None, VAS_Deneb = Some 2, VAS_Electra = None\<rparr>,
            \<lparr>VAS_Version = DataVersionDeneb, VAS_Bellatrix = None, VAS_Capella = None, VAS_Deneb = Some 3, VAS_Electra = None\<rparr>], None) \<and>
   Attestations ex_electra =
     (Some [\<lparr>VA_Version = DataVersionElectra, VA_Bellatrix = None, VA_Capella = None, VA_Deneb = None, VA_Electra = Some 4\<rparr>,
            \<lparr>VA_Version = DataVersionElectra, VA_Bellatrix = None, VA_Capella = None, VA_Deneb = None, VA_Electra = None\<rparr>,
            \<lparr>VA_Version = DataVersionElectra, VA_Bellatrix = None, VA_Capella = None, VA_Deneb = None, VA_Electra = Some 5\<rparr>], None) \<and>
   AttesterSlashings ex_electra =
     (Some [\<lparr>VAS_Version = DataVersionElectra, VAS_Bellatrix = None, VAS_Capella = None, VAS_Deneb = None, VAS_Electra = Some 2\<rparr>,
            \<lparr>VAS_Version = DataVersionElectra, VAS_Bellatrix = None, VAS_Capella = None, VAS_Deneb = None, VAS_Electra = Some 3\<rparr>], None) \<and>
   Attestations ex_bellatrix_no_body = (None, Some ErrDataMissing) \<and>
   AttesterSlashings ex_bellatrix_no_body = (None, Some ErrDataMissing)"
proof -
  have hB: "Version ex_bellatrix = DataVersionBellatrix \<and> Bellatrix ex_bellatrix = Some ex_signed"
    and hC: "Version ex_capella = DataVersionCapella \<and> Capella ex_capella = Some ex_signed"
    and hD: "Version ex_deneb = DataVersionDeneb \<and> Deneb ex_deneb = Some ex_signed"
    and hE: "Version ex_electra = DataVersionElectra \<and> Electra ex_electra = Some ex_signed"
    by (simp_all add: ex_bellatrix_def ex_capella_def ex_deneb_def ex_electra_def)
  have path: "Message ex_signed = Some ex_block \<and> Block_Body ex_block = Some ex_body"
    by (simp add: ex_signed_def ex_block_def)
  have src: "elems (Body_Attestations ex_body) = [Some 4, None, Some 5] \<and>
      elems (Body_AttesterSlashings ex_body) = [Some 2, Some 3]"
    by (simp add: ex_body_def elems_def)
  have hN: "Version ex_bellatrix_no_body = DataVersionBellatrix \<and>
      Bellatrix ex_bellatrix_no_body = Some \<lparr>Message = Some (ex_block\<lparr>Block_Body := None\<rparr>)\<rparr>"
    by (simp add: ex_bellatrix_no_body_def)
  show ?thesis
    using collection_accessors_wrap_elementwise [of ex_bellatrix]
      collection_accessors_wrap_elementwise [of ex_capella]
      collection_accessors_wrap_elementwise [of ex_deneb]
      collection_accessors_wrap_elementwise [of ex_electra]
      collection_accessors_wrap_elementwise [of ex_bellatrix_no_body]
      hB hC hD hE hN path src
    by simp
qed

text \<open>Claim C10. For each known tag, when payload, message and body are present,
  \<open>SyncAggregate\<close> returns the body's sync-aggregate pointer and \<open>ProposerSlashings\<close>
  the body's proposer-slashing slice as they are, with the nil error; the body \<open>b\<close>
  is arbitrary, so this includes a nil pointer and a nil slice.\<close>

theorem optional_body_fields_returned_as_is:
  "(Version v = DataVersionBellatrix \<and> Bellatrix v = Some p \<and> Message p = Some m \<and>
      Block_Body m = Some b \<longrightarrow>
      SyncAggregate v = (Body_SyncAggregate b, None) \<and>
      ProposerSlashings v = (Body_ProposerSlashings b, None)) \<and>
   (Version v = DataVersionCapella \<and> Capella v = Some p \<and> Message p = Some m \<and>
      Block_Body m = Some b \<longrightarrow>
      SyncAggregate v = (Body_SyncAggregate b, None) \<and>
      ProposerSlashings v = (Body_ProposerSlashings b, None)) \<and>
   (Version v = DataVersionDeneb \<and> Deneb v = Some p \<and> Message p = Some m \<and>
      Block_Body m = Some b \<longrightarrow>
      SyncAggregate v = (Body_SyncAggregate b, None) \<and>
      ProposerSlashings v = (Body_ProposerSlashings b, None)) \<and>
   (Version v = DataVersionElectra \<and> Electra v = Some pe \<and> Message pe = Some me \<and>
      Block_Body me = Some be \<longrightarrow>
      SyncAggregate v = (Body_SyncAggregate be, None) \<and>
      ProposerSlashings v = (Body_ProposerSlashings be, None))"
  by (simp add: SyncAggregate_def ProposerSlashings_def)

theorem optional_body_fields_returned_as_is_witness:
  "SyncAggregate ex_bellatrix = (None, None) \<and>
   ProposerSlashings ex_bellatrix = (Some [Some 1, None], None) \<and>
   SyncAggregate ex_capella = (None, None) \<and>
   ProposerSlashings ex_capella = (Some [Some 1, None], None) \<and>
   SyncAggregate ex_deneb = (None, None) \<and>
   ProposerSlashings ex_deneb = (Some [Some 1, None], None) \<and>
   SyncAggregate ex_electra = (None, None) \<and>
   ProposerSlashings ex_electra = (Some [Some 1, None], None)"
proof -
  have hB: "Version ex_bellatrix = DataVersionBellatrix \<and> Bellatrix ex_bellatrix = Some ex_signed"
    and hC: "Version ex_capella = DataVersionCapella \<and> Capella ex_capella = Some ex_signed"
    and hD: "Version ex_deneb = DataVersionDeneb \<and> Deneb ex_deneb = Some ex_signed"
    and hE: "Version ex_electra = DataVersionElectra \<and> Electra ex_electra = Some ex_signed"
    by (simp_all add: ex_bellatrix_def ex_capella_def ex_deneb_def ex_electra_def)
  have path: "Message ex_signed = Some ex_block \<and> Block_Body ex_block = Some ex_body"
    by (simp add: ex_signed_def ex_block_def)
  have fields: "Body_SyncAggregate ex_body = None \<and>
      Body_ProposerSlashings ex_body = Some [Some 1, None]"
    by (simp add: ex_body_def)
  show ?thesis
    using optional_body_fields_returned_as_is
        [of ex_bellatrix ex_signed ex_block ex_body ex_signed ex_block ex_body]
      optional_body_fields_returned_as_is
        [of ex_capella ex_signed ex_block ex_body ex_signed ex_block ex_body]
      optional_body_fields_returned_as_is
        [of ex_deneb ex_signed ex_block ex_body ex_signed ex_block ex_body]
      optional_body_fields_returned_as_is
        [of ex_electra ex_signed ex_block ex_body ex_signed ex_block ex_body]
      hB hC hD hE path fields
    by simp
qed




section \<open>Properties of the YAML codec\<close>

text \<open>Claim C7. \<open>MarshalYAML\<close> hands the three fields of the block contents to the
  serializer with the flow option set. If the serializer returns an error, that error
  is returned as it is, with no bytes. Otherwise every double quote of the serialized
  bytes is replaced by a single quote and the nil error is returned: a successful
  output holds no double quote, and the substitution adds no failure of its own (the
  error returned is the serializer's).\<close>

theorem MarshalYAML_replaces_double_quotes:
  "(\<forall>ys err.
      ym (blockContentsYAML_fields
            \<lparr>yaml_Block = Block b, yaml_KZGProofs = KZGProofs b, yaml_Blobs = Blobs b\<rparr>)
         [Flow True] = (ys, Some err) \<longrightarrow>
      MarshalYAML ym b = ([], Some err)) \<and>
   (\<forall>ys.
      ym (blockContentsYAML_fields
            \<lparr>yaml_Block = Block b, yaml_KZGProofs = KZGProofs b, yaml_Blobs = Blobs b\<rparr>)
         [Flow True] = (ys, None) \<longrightarrow>
      MarshalYAML ym b = (map (\<lambda>c. if c = CHR 0x22 then CHR 0x27 else c) ys, None)) \<and>
   (snd (MarshalYAML ym b) = None \<longrightarrow> CHR 0x22 \<notin> set (fst (MarshalYAML ym b))) \<and>
   snd (MarshalYAML ym b) =
     snd (ym (blockContentsYAML_fields
            \<lparr>yaml_Block = Block b, yaml_KZGProofs = KZGProofs b, yaml_Blobs = Blobs b\<rparr>)
          [Flow True])"
proof -
  obtain ys e where r:
    "ym (blockContentsYAML_fields
            \<lparr>yaml_Block = Block b, yaml_KZGProofs = KZGProofs b, yaml_Blobs = Blobs b\<rparr>)
         [Flow True] = (ys, e)"
    by (cases "ym (blockContentsYAML_fields
            \<lparr>yaml_Block = Block b, yaml_KZGProofs = KZGProofs b, yaml_Blobs = Blobs b\<rparr>)
         [Flow True]") blast
  show ?thesis
  proof (cases e)
    case None
    with r have m: "MarshalYAML ym b = (ReplaceAll ys [CHR 0x22] [CHR 0x27], None)"
      by (simp add: MarshalYAML_def)
    have q: "CHR 0x22 \<notin> set (ReplaceAll ys [CHR 0x22] [CHR 0x27])"
      by (rule ReplaceAll_no_old) simp
    show ?thesis using r None q by (simp add: m ReplaceAll_single)
  next
    case (Some err)
    with r have m: "MarshalYAML ym b = ([], Some err)"
      by (simp add: MarshalYAML_def)
    show ?thesis using r Some by (simp add: m)
  qed
qed

theorem MarshalYAML_replaces_double_quotes_witness:
  "MarshalYAML ex_marshal ex_contents = ([CHR 0x27] @ ''block'' @ [CHR 0x27], None) \<and>
   CHR 0x22 \<notin> set (fst (MarshalYAML ex_marshal ex_contents)) \<and>
   MarshalYAML ex_marshal_fail ex_contents = ([], Some (ExternalError ''encoder failed''))"
proof -
  have ok: "ex_marshal (blockContentsYAML_fields
      \<lparr>yaml_Block = Block ex_contents, yaml_KZGProofs = KZGProofs ex_contents,
       yaml_Blobs = Blobs ex_contents\<rparr>) [Flow True] = ([CHR 0x22] @ ''block'' @ [CHR 0x22], None)"
    by (simp add: ex_marshal_def blockContentsYAML_fields_def)
  have bad: "ex_marshal_fail (blockContentsYAML_fields
      \<lparr>yaml_Block = Block ex_contents, yaml_KZGProofs = KZGProofs ex_contents,
       yaml_Blobs = Blobs ex_contents\<rparr>) [Flow True] =
      (''partial'', Some (ExternalError ''encoder failed''))"
    by (simp add: ex_marshal_fail_def)
  show ?thesis
    using MarshalYAML_replaces_double_quotes [of ex_marshal ex_contents]
      MarshalYAML_replaces_double_quotes [of ex_marshal_fail ex_contents] ok bad
    by simp
qed

text \<open>Claim C9, as amended. The structure handed to the serializer has exactly three
  fields, in this order: the block under the key \<open>block\<close>, the proof sequence under
  the key \<open>kzg_proofs\<close> (with an underscore) and the blob sequence under the key
  \<open>blobs\<close>; this holds for every block contents \<open>b\<close>.\<close>

theorem MarshalYAML_field_keys:
  "map fst (blockContentsYAML_fields y) = [''block'', ''kzg_proofs'', ''blobs''] \<and>
   map snd (blockContentsYAML_fields y) =
     [YBlock (yaml_Block y), YKZGProofs (yaml_KZGProofs y), YBlobs (yaml_Blobs y)] \<and>
   MarshalYAML ym b =
     (case ym [(''block'', YBlock (Block b)), (''kzg_proofs'', YKZGProofs (KZGProofs b)),
               (''blobs'', YBlobs (Blobs b))] [Flow True] of
        (ys, Some err) \<Rightarrow> ([], Some err)
      | (ys, None) \<Rightarrow> (ReplaceAll ys [CHR 0x22] [CHR 0x27], None))"
  by (simp add: blockContentsYAML_fields_def MarshalYAML_def)

text \<open>The claim as stated names the key \<open>kzg proofs\<close>, with a space: the keys of the
  example's structure are not \<open>block\<close>, \<open>kzg proofs\<close>, \<open>blobs\<close>.\<close>

theorem kzg_proofs_key_counterexample:
  "map fst (blockContentsYAML_fields
      \<lparr>yaml_Block = Block ex_contents, yaml_KZGProofs = KZGProofs ex_contents,
       yaml_Blobs = Blobs ex_contents\<rparr>) \<noteq> [''block'', ''kzg proofs'', ''blobs'']"
  by (simp add: blockContentsYAML_fields_def)

text \<open>Claim C8. \<open>UnmarshalYAML\<close> parses the input into the intermediate structure of
  the JSON codec, encodes that structure as JSON and passes the bytes to
  \<open>UnmarshalJSON\<close>. A parse failure is returned wrapped with the label
  \<open>failed to unmarshal YAML\<close>, an encoding failure wrapped with
  \<open>failed to marshal JSON\<close> (the receiver untouched in both cases), and otherwise the
  result is exactly what \<open>UnmarshalJSON\<close> returns, error included.\<close>

theorem UnmarshalYAML_stages:
  "(\<forall>u e. yu input j0 = (u, Some e) \<longrightarrow>
      UnmarshalYAML yu jm uj j0 b input = (b, Some (Wrap e ''failed to unmarshal YAML''))) \<and>
   (\<forall>u ms e. yu input j0 = (u, None) \<and> jm u = (ms, Some e) \<longrightarrow>
      UnmarshalYAML yu jm uj j0 b input = (b, Some (Wrap e ''failed to marshal JSON''))) \<and>
   (\<forall>u ms. yu input j0 = (u, None) \<and> jm u = (ms, None) \<longrightarrow>
      UnmarshalYAML yu jm uj j0 b input = uj b ms)"
  by (simp add: UnmarshalYAML_def)

theorem UnmarshalYAML_stages_witness:
  "UnmarshalYAML ex_yaml_unmarshal ex_json_marshal ex_UnmarshalJSON 0 ex_contents [] =
     (ex_contents, Some (Wrap (ExternalError ''unexpected end of input'') ''failed to unmarshal YAML'')) \<and>
   UnmarshalYAML ex_yaml_unmarshal ex_json_marshal ex_UnmarshalJSON 0 ex_contents ''a'' =
     (ex_contents, Some (Wrap (ExternalError ''unsupported value'') ''failed to marshal JSON'')) \<and>
   UnmarshalYAML ex_yaml_unmarshal ex_json_marshal ex_UnmarshalJSON 0 ex_contents ''ab'' =
     (ex_contents, Some (ExternalError ''invalid JSON'')) \<and>
   UnmarshalYAML ex_yaml_unmarshal ex_json_marshal ex_UnmarshalJSON 0 ex_contents ''abcd'' =
     (ex_contents\<lparr>Block := Some 4\<rparr>, None)"
proof -
  have y0: "ex_yaml_unmarshal [] 0 = (0, Some (ExternalError ''unexpected end of input''))"
    and y1: "ex_yaml_unmarshal ''a'' 0 = (1, None)"
    and y2: "ex_yaml_unmarshal ''ab'' 0 = (2, None)"
    and y4: "ex_yaml_unmarshal ''abcd'' 0 = (4, None)"
    by (simp_all add: ex_yaml_unmarshal_def)
  have j1: "ex_json_marshal 1 = ([], Some (ExternalError ''unsupported value''))"
    and j2: "ex_json_marshal 2 = (''xx'', None)"
    and j4: "ex_json_marshal 4 = (''xxxx'', None)"
    by (simp_all add: ex_json_marshal_def numeral_eq_Suc)
  have u2: "ex_UnmarshalJSON ex_contents ''xx'' = (ex_contents, Some (ExternalError ''invalid JSON''))"
    and u4: "ex_UnmarshalJSON ex_contents ''xxxx'' = (ex_contents\<lparr>Block := Some 4\<rparr>, None)"
    by (simp_all add: ex_UnmarshalJSON_def)
  show ?thesis
    using UnmarshalYAML_stages [of ex_yaml_unmarshal "[]" 0 ex_json_marshal ex_UnmarshalJSON ex_contents]
      UnmarshalYAML_stages [of ex_yaml_unmarshal "''a''" 0 ex_json_marshal ex_UnmarshalJSON ex_contents]
      UnmarshalYAML_stages [of ex_yaml_unmarshal "''ab''" 0 ex_json_marshal ex_UnmarshalJSON ex_contents]
      UnmarshalYAML_stages [of ex_yaml_unmarshal "''abcd''" 0 ex_json_marshal ex_UnmarshalJSON ex_contents]
      y0 y1 y2 y4 j1 j2 j4 u2 u4
    by simp
qed

end
